theory Spec2Isabelle
  imports Main
begin

section \<open>JavaScript values\<close>

text \<open>
  The server of \<^verbatim>\<open>src/server.js\<close> handles JSON request bodies and rows of an SQLite
  database through dynamically typed JavaScript values. The model keeps that: a request
  field may be absent (\<open>undefined\<close>), \<open>null\<close>, a boolean, a number, a string, an
  array or an object.

  Numbers are the integers and \<open>NaN\<close>; fractions and infinities are not modelled (no
  handler computes one from an integer input, except the page count of the list, see
  \<open>js_ceil_div\<close>). A string is a list of UTF-16 code units; the model covers the code
  units below 256, which holds every character of the literals of the source, written
  \<open>CHR 0xE9\<close> where the code unit is not ASCII. An object is the list of its own
  properties in insertion order, the first entry of a key being the property.
\<close>

datatype jsval =
    JUndefined
  | JNull
  | JBool bool
  | JNum int
  | JNaN
  | JStr string
  | JArr "jsval list"
  | JObj "(string \<times> jsval) list"

type_synonym jsobj = "(string \<times> jsval) list"

text \<open>\<open>ToBoolean\<close>: what \<open>!v\<close>, \<open>v || w\<close> and \<open>v ? a : b\<close> test.\<close>

fun truthy :: "jsval \<Rightarrow> bool" where
  "truthy JUndefined = False"
| "truthy JNull = False"
| "truthy (JBool b) = b"
| "truthy (JNum n) = (n \<noteq> 0)"
| "truthy JNaN = False"
| "truthy (JStr s) = (s \<noteq> [])"
| "truthy (JArr xs) = True"
| "truthy (JObj ps) = True"

definition js_or :: "jsval \<Rightarrow> jsval \<Rightarrow> jsval" where
  "js_or a b = (if truthy a then a else b)"

text \<open>\<open>o.k\<close> for an object \<open>o\<close>: the property, or \<open>undefined\<close>.\<close>

definition field :: "jsobj \<Rightarrow> string \<Rightarrow> jsval" where
  "field ps k = (case map_of ps k of None \<Rightarrow> JUndefined | Some v \<Rightarrow> v)"

text \<open>
  \<open>v.k\<close> for any value: reading a property of \<open>undefined\<close> or \<open>null\<close> throws a
  TypeError (\<open>None\<close>); a string and an array have their \<open>length\<close>; every other
  own data property of a primitive is \<open>undefined\<close>.
\<close>

fun js_get :: "jsval \<Rightarrow> string \<Rightarrow> jsval option" where
  "js_get JUndefined k = None"
| "js_get JNull k = None"
| "js_get (JObj ps) k = Some (field ps k)"
| "js_get (JStr s) k = Some (if k = ''length'' then JNum (int (length s)) else JUndefined)"
| "js_get (JArr xs) k = Some (if k = ''length'' then JNum (int (length xs)) else JUndefined)"
| "js_get (JBool b) k = Some JUndefined"
| "js_get (JNum n) k = Some JUndefined"
| "js_get JNaN k = Some JUndefined"

text \<open>
  Object spread \<open>{...a, ...b}\<close>: the keys of \<open>a\<close> in their order, each with the value
  of \<open>b\<close> where \<open>b\<close> has the key, then the keys only \<open>b\<close> has. \<open>delete o.k\<close>
  removes the property.
\<close>

definition spread :: "jsobj \<Rightarrow> jsobj \<Rightarrow> jsobj" where
  "spread a b =
     map (\<lambda>(k, v). (k, case map_of b k of None \<Rightarrow> v | Some w \<Rightarrow> w)) a
     @ filter (\<lambda>(k, v). map_of a k = None) b"

definition obj_delete :: "jsobj \<Rightarrow> string \<Rightarrow> jsobj" where
  "obj_delete ps k = filter (\<lambda>(k', v). k' \<noteq> k) ps"

text \<open>\<open>o.k = v\<close>: overwrite in place, or add the property at the end.\<close>

definition obj_set :: "jsobj \<Rightarrow> string \<Rightarrow> jsval \<Rightarrow> jsobj" where
  "obj_set ps k v = spread ps [(k, v)]"

subsection \<open>Strings\<close>

text \<open>
  \<open>String.prototype.trim\<close> strips white space and line terminators from both ends;
  below 256 these are the code units 9 to 13, 32 and 160.
\<close>

definition js_space :: "char \<Rightarrow> bool" where
  "js_space c = ((of_char c :: nat) \<in> {9, 10, 11, 12, 13, 32, 160})"

definition trim :: "string \<Rightarrow> string" where
  "trim s = rev (dropWhile js_space (rev (dropWhile js_space s)))"

text \<open>Decimal digits of a number, as \<open>String(n)\<close> and \<open>JSON.stringify(n)\<close> print it.\<close>

fun digits :: "nat \<Rightarrow> string" where
  "digits n = (if n < 10 then [char_of (48 + n)] else digits (n div 10) @ [char_of (48 + n mod 10)])"

declare digits.simps [simp del]

definition show_int :: "int \<Rightarrow> string" where
  "show_int i = (if i < 0 then CHR ''-'' # digits (nat (- i)) else digits (nat i))"

text \<open>
  \<open>JSON.stringify(v)\<close> without indentation. In an array \<open>undefined\<close> and \<open>NaN\<close>
  print as \<open>null\<close>; in an object a property whose value is \<open>undefined\<close> is left
  out. The source only serialises objects and truthy values, so the top-level
  \<open>undefined\<close> (for which \<open>JSON.stringify\<close> returns no string) does not occur; the
  model prints it as \<open>null\<close>.
\<close>

definition hex_digit :: "nat \<Rightarrow> char" where
  "hex_digit n = (if n < 10 then char_of (48 + n) else char_of (87 + n))"

definition json_char :: "char \<Rightarrow> string" where
  "json_char c =
     (let n = (of_char c :: nat) in
      if c = CHR ''\"'' then [CHR 0x5C, CHR ''\"'']
      else if n = 0x5C then [CHR 0x5C, CHR 0x5C]
      else if n = 8 then [CHR 0x5C, CHR ''b'']
      else if n = 9 then [CHR 0x5C, CHR ''t'']
      else if n = 10 then [CHR 0x5C, CHR ''n'']
      else if n = 12 then [CHR 0x5C, CHR ''f'']
      else if n = 13 then [CHR 0x5C, CHR ''r'']
      else if n < 32 then [CHR 0x5C, CHR ''u'', CHR ''0'', CHR ''0'', hex_digit (n div 16), hex_digit (n mod 16)]
      else [c])"

definition json_string :: "string \<Rightarrow> string" where
  "json_string s = CHR ''\"'' # concat (map json_char s) @ [CHR ''\"'']"

fun commas :: "string list \<Rightarrow> string" where
  "commas [] = []"
| "commas [x] = x"
| "commas (x # y # ys) = x @ CHR '','' # commas (y # ys)"

fun stringify :: "jsval \<Rightarrow> string" where
  "stringify JUndefined = ''null''"
| "stringify JNull = ''null''"
| "stringify (JBool b) = (if b then ''true'' else ''false'')"
| "stringify (JNum n) = show_int n"
| "stringify JNaN = ''null''"
| "stringify (JStr s) = json_string s"
| "stringify (JArr xs) = CHR ''['' # commas (map stringify xs) @ [CHR '']'']"
| "stringify (JObj ps) =
     CHR ''{'' # commas (map (\<lambda>p. json_string (fst p) @ CHR '':'' # stringify (snd p))
                          (filter (\<lambda>p. snd p \<noteq> JUndefined) ps)) @ [CHR ''}'']"

text \<open>
  \<open>String(v)\<close>, as a template literal and \<open>Array.prototype.join\<close> convert: an array
  is its elements joined by commas, \<open>null\<close> and \<open>undefined\<close> elements printing as
  the empty string.
\<close>

fun js_to_string :: "jsval \<Rightarrow> string" where
  "js_to_string JUndefined = ''undefined''"
| "js_to_string JNull = ''null''"
| "js_to_string (JBool b) = (if b then ''true'' else ''false'')"
| "js_to_string (JNum n) = show_int n"
| "js_to_string JNaN = ''NaN''"
| "js_to_string (JStr s) = s"
| "js_to_string (JArr xs) =
     commas (map (\<lambda>x. if x = JUndefined \<or> x = JNull then [] else js_to_string x) xs)"
| "js_to_string (JObj ps) = ''[object Object]''"

text \<open>
  Converting an object to a primitive, as \<open>new Date(v)\<close> and \<open>String(v)\<close> do, calls
  its \<open>valueOf\<close> and its \<open>toString\<close>. No value parsed from JSON is callable. So an
  object with an own property \<open>toString\<close> has no \<open>toString\<close> to call, its
  \<open>valueOf\<close> (an own property, or the inherited one, which returns the object) gives
  no primitive, and the conversion throws a TypeError; without that property the
  inherited \<open>toString\<close> answers. An array is converted by joining its elements, each
  converted in the same way; \<open>null\<close> and \<open>undefined\<close> elements are not converted.
  \<open>js_to_string\<close> is the text when the conversion does not throw. In the modelled
  handlers the validator converts a value of the body (\<open>new Date(dataLimite)\<close>); the
  other conversions are of query parameters and of bound parameters, taken to be
  values that convert.
\<close>

fun primitive_throws :: "jsval \<Rightarrow> bool" where
  "primitive_throws (JObj ps) = (map_of ps ''toString'' \<noteq> None)"
| "primitive_throws (JArr xs) = list_ex primitive_throws xs"
| "primitive_throws JUndefined = False"
| "primitive_throws JNull = False"
| "primitive_throws (JBool b) = False"
| "primitive_throws (JNum n) = False"
| "primitive_throws JNaN = False"
| "primitive_throws (JStr s) = False"

section \<open>The clock, the tag generator and the request's origin\<close>

text \<open>
  What a handler reads from outside the program is a field of the environment:
  \<^item> \<open>hoje\<close>: the time value (milliseconds) of \<open>new Date()\<close> after
    \<open>setHours(0, 0, 0, 0)\<close>, the local midnight of the current day;
  \<^item> \<open>date_of v\<close>: the time value of \<open>new Date(v)\<close> for a value \<open>v\<close> on which the
    constructor does not throw, \<open>None\<close> for an invalid date (whose time value is
    \<open>NaN\<close>);
  \<^item> \<open>agora_iso\<close>: \<open>new Date().toISOString()\<close>;
  \<^item> \<open>agora_db\<close>: SQLite's \<open>CURRENT_TIMESTAMP\<close>;
  \<^item> \<open>tag_gerada\<close>: the tag built from \<open>Date.now()\<close> and \<open>Math.random()\<close>;
  \<^item> \<open>ip\<close>: \<open>req.ip\<close>.
  One handler run reads the clock once.
\<close>

record env =
  hoje :: int
  date_of :: "jsval \<Rightarrow> int option"
  agora_iso :: string
  agora_db :: string
  tag_gerada :: string
  ip :: jsval

section \<open>The validation middleware\<close>

text \<open>
  \<open>req.body\<close> is the object \<open>express.json()\<close> parsed (the empty object when the
  request has no JSON body). One constructor stands for each message
  \<open>validarDemanda\<close> pushes on \<open>erros\<close>, in the order of the source.
\<close>

datatype erro =
    ErroNome
  | ErroCategoria
  | ErroPrioridade
  | ErroComplexidade
  | ErroDescricao
  | ErroLocal
  | ErroDataObrigatoria
  | ErroDataAnterior

definition Media :: string where
  "Media = [CHR ''M'', CHR 0xE9, CHR ''d'', CHR ''i'', CHR ''a'']"

definition Facil :: string where
  "Facil = [CHR ''F'', CHR 0xE1, CHR ''c'', CHR ''i'', CHR ''l'']"

definition Medio :: string where
  "Medio = [CHR ''M'', CHR 0xE9, CHR ''d'', CHR ''i'', CHR ''o'']"

definition Dificil :: string where
  "Dificil = [CHR ''D'', CHR ''i'', CHR ''f'', CHR 0xED, CHR ''c'', CHR ''i'', CHR ''l'']"

definition prioridades :: "jsval list" where
  "prioridades = [JStr ''Importante'', JStr Media, JStr ''Relevante'']"

definition complexidades :: "jsval list" where
  "complexidades = [JStr Facil, JStr Medio, JStr Dificil]"

text \<open>
  \<open>!v || v.trim().length < n\<close>. A falsy \<open>v\<close> answers at once. A truthy \<open>v\<close> that
  is not a string (a number, \<open>true\<close>, an array, an object) has no \<open>trim\<close> method: the
  call throws a TypeError, which is \<open>None\<close>.
\<close>

definition too_short :: "jsval \<Rightarrow> nat \<Rightarrow> bool option" where
  "too_short v n =
     (if \<not> truthy v then Some True
      else case v of JStr s \<Rightarrow> Some (length (trim s) < n) | _ \<Rightarrow> None)"

text \<open>
  \<open>dataLim < hoje\<close> on two dates compares their time values; with an invalid date the
  comparison is \<open>false\<close>. The comparison itself does not throw; constructing
  \<open>dataLim\<close> may (\<open>data_erros\<close>).
\<close>

definition before_today :: "env \<Rightarrow> jsval \<Rightarrow> bool" where
  "before_today e v = (case date_of e v of None \<Rightarrow> False | Some t \<Rightarrow> t < hoje e)"

text \<open>
  The check of \<open>dataLimite\<close>. A falsy value is reported as missing. For a truthy one
  the validator builds \<open>new Date(dataLimite)\<close>, which throws a TypeError when the
  value does not convert to a primitive (\<open>None\<close>), and then compares.
\<close>

definition data_erros :: "env \<Rightarrow> jsval \<Rightarrow> erro list option" where
  "data_erros e v =
     (if \<not> truthy v then Some [ErroDataObrigatoria]
      else if primitive_throws v then None
      else Some (if before_today e v then [ErroDataAnterior] else []))"

text \<open>
  The list \<open>erros\<close> when the checks run to their end, \<open>None\<close> when one of the three
  that can throw does: \<open>nomeDemanda.trim()\<close>, \<open>descricao.trim()\<close>,
  \<open>new Date(dataLimite)\<close>.
\<close>

definition erros_de :: "env \<Rightarrow> jsobj \<Rightarrow> erro list option" where
  "erros_de e b =
     (case too_short (field b ''nomeDemanda'') 3 of
        None \<Rightarrow> None
      | Some nome_curto \<Rightarrow>
          (case too_short (field b ''descricao'') 10 of
             None \<Rightarrow> None
           | Some descricao_curta \<Rightarrow>
               (case data_erros e (field b ''dataLimite'') of
                  None \<Rightarrow> None
                | Some erros_data \<Rightarrow>
                    Some ((if nome_curto then [ErroNome] else [])
                      @ (if \<not> truthy (field b ''categoria'') then [ErroCategoria] else [])
                      @ (if \<not> truthy (field b ''prioridade'')
                            \<or> field b ''prioridade'' \<notin> set prioridades
                         then [ErroPrioridade] else [])
                      @ (if \<not> truthy (field b ''complexidade'')
                            \<or> field b ''complexidade'' \<notin> set complexidades
                         then [ErroComplexidade] else [])
                      @ (if descricao_curta then [ErroDescricao] else [])
                      @ (if \<not> truthy (field b ''local'') then [ErroLocal] else [])
                      @ erros_data))))"

datatype verdict = Next | Rejected "erro list" | Thrown

definition validarDemanda :: "env \<Rightarrow> jsobj \<Rightarrow> verdict" where
  "validarDemanda e b =
     (case erros_de e b of
        None \<Rightarrow> Thrown
      | Some es \<Rightarrow> if 0 < length es then Rejected es else Next)"

section \<open>The SQLite store\<close>

text \<open>
  The engine is not part of the source; the model states what it assumes of it. The
  tables are as the \<open>CREATE TABLE\<close> statements of the source declare them.
  A stored value is \<open>NULL\<close>, an integer or a text (no handler stores a fraction or a
  blob). A row lists its columns in the order of the table. A value is stored as it is bound (SQLite's conversion of a value
  to the declared type of its column on storing is not modelled), and the route
  parameter \<open>:id\<close> is taken as the integer SQLite compares with the \<open>id\<close> column.
  Statements run one after the other, in the order the source issues them.
\<close>

datatype sqlval = SNull | SInt int | SText string

type_synonym row = "(string \<times> sqlval) list"

definition col :: "row \<Rightarrow> string \<Rightarrow> sqlval" where
  "col r c = (case map_of r c of None \<Rightarrow> SNull | Some v \<Rightarrow> v)"

text \<open>
  Binding a parameter (node-sqlite3): a string is a text, a number an integer, a
  boolean 0 or 1, \<open>null\<close> is \<open>NULL\<close>; \<open>undefined\<close> leaves the placeholder unbound,
  which SQLite reads as \<open>NULL\<close>, and \<open>NaN\<close> is stored as \<open>NULL\<close>; an array or an
  object is bound as a text, here \<open>String(v)\<close> (which text it is depends on the
  driver's version; nothing proved below rests on it).
\<close>

fun bind :: "jsval \<Rightarrow> sqlval" where
  "bind JUndefined = SNull"
| "bind JNull = SNull"
| "bind (JBool b) = SInt (if b then 1 else 0)"
| "bind (JNum n) = SInt n"
| "bind JNaN = SNull"
| "bind (JStr s) = SText s"
| "bind (JArr xs) = SText (js_to_string (JArr xs))"
| "bind (JObj ps) = SText (js_to_string (JObj ps))"

fun js_of_sql :: "sqlval \<Rightarrow> jsval" where
  "js_of_sql SNull = JNull"
| "js_of_sql (SInt n) = JNum n"
| "js_of_sql (SText s) = JStr s"

text \<open>A row as \<open>db.get\<close> and \<open>db.all\<close> hand it to the callback.\<close>

definition row_obj :: "row \<Rightarrow> jsobj" where
  "row_obj r = map (\<lambda>(c, v). (c, js_of_sql v)) r"

datatype sql_error =
    ValuesMismatch nat nat
  | BindRange
  | NoSuchColumn string
  | NotNull string
  | NotUnique string
  | DatatypeMismatch

text \<open>
  A table's declaration: its columns, those declared \<open>NOT NULL\<close>, those declared
  \<open>UNIQUE\<close>, and the \<open>DEFAULT\<close> values given the current timestamp.
\<close>

record tabela =
  colunas :: "string list"
  nao_nulas :: "string list"
  unicas :: "string list"
  padroes :: "string \<Rightarrow> (string \<times> sqlval) list"

definition tabela_demandas :: tabela where
  "tabela_demandas = \<lparr>
     colunas = [''id'', ''funcionarioId'', ''nomeFuncionario'', ''emailFuncionario'',
       ''categoria'', ''prioridade'', ''complexidade'', ''descricao'', ''local'',
       ''dataCriacao'', ''dataLimite'', ''status'', ''isRotina'', ''diasSemana'', ''tag'',
       ''comentarios'', ''comentarioGestor'', ''dataConclusao'', ''atribuidos'',
       ''dataAtualizacao'', ''criadoPor'', ''atualizadoPor''],
     nao_nulas = [''funcionarioId'', ''nomeFuncionario'', ''emailFuncionario'',
       ''categoria'', ''prioridade'', ''complexidade'', ''descricao'', ''local'',
       ''dataCriacao'', ''dataLimite'', ''status''],
     unicas = [''tag''],
     padroes = (\<lambda>agora. [(''dataCriacao'', SText agora), (''status'', SText ''pendente''),
       (''isRotina'', SInt 0), (''comentarios'', SText []), (''comentarioGestor'', SText []),
       (''dataAtualizacao'', SText agora)]) \<rparr>"

definition tabela_auditoria :: tabela where
  "tabela_auditoria = \<lparr>
     colunas = [''id'', ''acao'', ''tabela'', ''registroId'', ''dadosAntigos'',
       ''dadosNovos'', ''usuarioId'', ''dataHora'', ''ip''],
     nao_nulas = [''acao'', ''tabela'', ''registroId''],
     unicas = [],
     padroes = (\<lambda>agora. [(''dataHora'', SText agora)]) \<rparr>"

definition tabela_backups :: tabela where
  "tabela_backups = \<lparr>
     colunas = [''id'', ''nomeArquivo'', ''dataBackup'', ''tamanho'', ''tipo'',
       ''dataCriacao''],
     nao_nulas = [''nomeArquivo'', ''dataBackup'', ''tamanho'', ''tipo''],
     unicas = [],
     padroes = (\<lambda>agora. [(''dataCriacao'', SText agora)]) \<rparr>"

text \<open>
  The contents of a table and the largest row id it ever gave out
  (\<open>AUTOINCREMENT\<close> never reuses an id, also after \<open>DELETE\<close>).
\<close>

record dados =
  linhas :: "row list"
  ultimo_id :: int

definition row_id :: "row \<Rightarrow> int" where
  "row_id r = (case col r ''id'' of SInt n \<Rightarrow> n | _ \<Rightarrow> 0)"

definition proximo_id :: "dados \<Rightarrow> int" where
  "proximo_id t = fold max (map row_id (linhas t)) (ultimo_id t) + 1"

text \<open>The columns of \<open>cs\<close> in which the row breaks \<open>NOT NULL\<close> or \<open>UNIQUE\<close>.\<close>

definition nulas :: "tabela \<Rightarrow> row \<Rightarrow> string list" where
  "nulas t r = filter (\<lambda>c. col r c = SNull) (nao_nulas t)"

definition repetidas :: "tabela \<Rightarrow> row \<Rightarrow> row list \<Rightarrow> string list" where
  "repetidas t r others =
     filter (\<lambda>c. col r c \<noteq> SNull \<and> list_ex (\<lambda>x. col x c = col r c) others) (unicas t)"

definition restricoes :: "tabela \<Rightarrow> row \<Rightarrow> row list \<Rightarrow> sql_error option" where
  "restricoes t r others =
     (case nulas t r of
        c # _ \<Rightarrow> Some (NotNull c)
      | [] \<Rightarrow> (case repetidas t r others of c # _ \<Rightarrow> Some (NotUnique c) | [] \<Rightarrow> None))"

text \<open>
  \<open>INSERT INTO t (cols) VALUES (?, ..., ?)\<close> with \<open>n\<close> placeholders and the bound
  parameters \<open>ps\<close>. The statement does not compile when \<open>n\<close> differs from the number
  of columns named or when a named column is not in the table; binding more parameters
  than placeholders is an error; a placeholder left unbound is \<open>NULL\<close>. A column not
  named takes its default. The result is the new contents and the new row's id
  (\<open>this.lastID\<close>).
\<close>

definition sql_insert ::
  "tabela \<Rightarrow> string \<Rightarrow> string list \<Rightarrow> nat \<Rightarrow> sqlval list \<Rightarrow> dados \<Rightarrow> sql_error + dados \<times> int" where
  "sql_insert t agora cols n ps d =
     (if n \<noteq> length cols then Inl (ValuesMismatch n (length cols))
      else
        (case filter (\<lambda>c. c \<notin> set (colunas t)) cols of
           c # _ \<Rightarrow> Inl (NoSuchColumn c)
         | [] \<Rightarrow>
            (if n < length ps then Inl BindRange
             else
               (let given = zip cols (ps @ replicate (n - length ps) SNull);
                    i = proximo_id d;
                    r = map (\<lambda>c. (c,
                          if c = ''id'' then SInt i
                          else (case map_of given c of
                                  Some v \<Rightarrow> v
                                | None \<Rightarrow> (case map_of (padroes t agora) c of
                                             Some v \<Rightarrow> v | None \<Rightarrow> SNull))))
                          (colunas t)
                in (case restricoes t r (linhas d) of
                      Some err \<Rightarrow> Inl err
                    | None \<Rightarrow> Inr (\<lparr> linhas = linhas d @ [r], ultimo_id = i \<rparr>, i))))))"

text \<open>\<open>SELECT * FROM t WHERE id = ?\<close> through \<open>db.get\<close>: the first row, if any.\<close>

definition select_by_id :: "int \<Rightarrow> row list \<Rightarrow> row option" where
  "select_by_id i rows = find (\<lambda>r. col r ''id'' = SInt i) rows"

text \<open>
  \<open>UPDATE t SET c1 = ?, ... WHERE id = ?\<close>: the named columns of the matching row
  take the bound values, every other column keeps its value. A row that would break a
  constraint aborts the statement and nothing changes.
\<close>

definition assign :: "(string \<times> sqlval) list \<Rightarrow> row \<Rightarrow> row" where
  "assign sets r = map (\<lambda>(c, v). (c, case map_of sets c of None \<Rightarrow> v | Some w \<Rightarrow> w)) r"

definition sql_update_by_id ::
  "tabela \<Rightarrow> (string \<times> sqlval) list \<Rightarrow> int \<Rightarrow> row list \<Rightarrow> sql_error + row list" where
  "sql_update_by_id t sets i rows =
     (case select_by_id i rows of
        None \<Rightarrow> Inr rows
      | Some r \<Rightarrow>
          (case restricoes t (assign sets r) (filter (\<lambda>x. col x ''id'' \<noteq> SInt i) rows) of
             Some err \<Rightarrow> Inl err
           | None \<Rightarrow> Inr (map (\<lambda>x. if col x ''id'' = SInt i then assign sets x else x) rows)))"

text \<open>\<open>DELETE FROM t WHERE id = ?\<close>.\<close>

definition sql_delete_by_id :: "int \<Rightarrow> row list \<Rightarrow> row list" where
  "sql_delete_by_id i rows = filter (\<lambda>r. col r ''id'' \<noteq> SInt i) rows"

text \<open>
  The order of values in \<open>ORDER BY\<close>: \<open>NULL\<close> first, then the integers, then the texts
  by their code units. Rows are sorted by insertion, rows with equal keys staying in
  the order of the table (SQLite leaves their order open).
\<close>

fun str_less :: "string \<Rightarrow> string \<Rightarrow> bool" where
  "str_less [] [] = False"
| "str_less [] (y # ys) = True"
| "str_less (x # xs) [] = False"
| "str_less (x # xs) (y # ys) = ((of_char x :: nat) < of_char y \<or> (x = y \<and> str_less xs ys))"

fun sql_less :: "sqlval \<Rightarrow> sqlval \<Rightarrow> bool" where
  "sql_less SNull SNull = False"
| "sql_less SNull _ = True"
| "sql_less (SInt a) SNull = False"
| "sql_less (SInt a) (SInt b) = (a < b)"
| "sql_less (SInt a) (SText t) = True"
| "sql_less (SText s) (SText t) = str_less s t"
| "sql_less (SText s) _ = False"

fun insert_by :: "('k \<Rightarrow> 'k \<Rightarrow> bool) \<Rightarrow> (row \<Rightarrow> 'k) \<Rightarrow> row \<Rightarrow> row list \<Rightarrow> row list" where
  "insert_by lt key r [] = [r]"
| "insert_by lt key r (x # xs) =
     (if lt (key r) (key x) then r # x # xs else x # insert_by lt key r xs)"

definition order_by :: "string \<Rightarrow> bool \<Rightarrow> row list \<Rightarrow> row list" where
  "order_by c asc rows =
     fold (insert_by (if asc then sql_less else (\<lambda>a b. sql_less b a)) (\<lambda>r. col r c)) rows []"

text \<open>
  \<open>LIMIT ? OFFSET ?\<close>: both must be integers, otherwise the statement fails with a
  datatype mismatch (so for \<open>NULL\<close>); a negative limit is no limit, a negative offset
  is 0.
\<close>

definition sql_limit :: "sqlval \<Rightarrow> sqlval \<Rightarrow> row list \<Rightarrow> sql_error + row list" where
  "sql_limit lim off rows =
     (case (lim, off) of
        (SInt l, SInt k) \<Rightarrow> Inr ((if l < 0 then id else take (nat l)) (drop (nat k) rows))
      | _ \<Rightarrow> Inl DatatypeMismatch)"

text \<open>
  Comparing a column with a bound parameter. Against a column declared \<open>INTEGER\<close> a
  text parameter that is a decimal integer literal is compared as that integer (other
  numeric spellings are not modelled). A comparison with \<open>NULL\<close> is never true.
\<close>

definition digit_value :: "char \<Rightarrow> nat option" where
  "digit_value c =
     (let n = (of_char c :: nat) in
      if 48 \<le> n \<and> n \<le> 57 then Some (n - 48)
      else if 97 \<le> n \<and> n \<le> 102 then Some (n - 87)
      else if 65 \<le> n \<and> n \<le> 70 then Some (n - 55)
      else None)"

definition is_digit :: "nat \<Rightarrow> char \<Rightarrow> bool" where
  "is_digit radix c = (case digit_value c of None \<Rightarrow> False | Some v \<Rightarrow> v < radix)"

definition digits_value :: "nat \<Rightarrow> string \<Rightarrow> nat" where
  "digits_value radix s =
     foldl (\<lambda>a c. radix * a + (case digit_value c of None \<Rightarrow> 0 | Some v \<Rightarrow> v)) 0 s"

definition signed :: "string \<Rightarrow> bool \<times> string" where
  "signed s =
     (case s of
        [] \<Rightarrow> (False, [])
      | c # r \<Rightarrow> if c = CHR ''-'' then (True, r) else if c = CHR ''+'' then (False, r) else (False, s))"

definition int_literal :: "string \<Rightarrow> int option" where
  "int_literal s =
     (let (neg, z) = signed s
      in if z \<noteq> [] \<and> list_all (is_digit 10) z
         then Some ((if neg then - 1 else 1) * int (digits_value 10 z))
         else None)"

definition colunas_inteiras :: "string list" where
  "colunas_inteiras = [''id'', ''funcionarioId'', ''isRotina'', ''criadoPor'', ''atualizadoPor'',
     ''registroId'', ''usuarioId'', ''tamanho'']"

definition afinidade :: "string \<Rightarrow> sqlval \<Rightarrow> sqlval" where
  "afinidade c v =
     (if c \<in> set colunas_inteiras
      then (case v of
              SText s \<Rightarrow> (case int_literal s of None \<Rightarrow> v | Some n \<Rightarrow> SInt n)
            | _ \<Rightarrow> v)
      else v)"

datatype cond = Igual string sqlval | MaiorIgual string sqlval | MenorIgual string sqlval

fun holds :: "cond \<Rightarrow> row \<Rightarrow> bool" where
  "holds (Igual c p) r = (col r c \<noteq> SNull \<and> p \<noteq> SNull \<and> col r c = afinidade c p)"
| "holds (MaiorIgual c p) r =
     (col r c \<noteq> SNull \<and> p \<noteq> SNull \<and> \<not> sql_less (col r c) (afinidade c p))"
| "holds (MenorIgual c p) r =
     (col r c \<noteq> SNull \<and> p \<noteq> SNull \<and> \<not> sql_less (afinidade c p) (col r c))"

definition sql_where :: "cond list \<Rightarrow> row list \<Rightarrow> row list" where
  "sql_where conds rows = filter (\<lambda>r. list_all (\<lambda>k. holds k r) conds) rows"

text \<open>
  \<open>x LIKE pattern\<close>: \<open>%\<close> stands for any run of characters, \<open>_\<close> for one; ASCII
  letters match without regard to case. An integer is matched through its decimal
  text; with \<open>NULL\<close> on either side the match fails.
\<close>

definition lower :: "char \<Rightarrow> char" where
  "lower c = (let n = (of_char c :: nat) in if 65 \<le> n \<and> n \<le> 90 then char_of (n + 32) else c)"

definition upper :: "char \<Rightarrow> char" where
  "upper c = (let n = (of_char c :: nat) in if 97 \<le> n \<and> n \<le> 122 then char_of (n - 32) else c)"

fun like :: "string \<Rightarrow> string \<Rightarrow> bool" where
  "like [] t = (t = [])"
| "like (p # ps) [] = (p = CHR ''%'' \<and> like ps [])"
| "like (p # ps) (c # cs) =
     (if p = CHR ''%'' then like ps (c # cs) \<or> like (p # ps) cs
      else (p = CHR ''_'' \<or> lower p = lower c) \<and> like ps cs)"

fun sql_text :: "sqlval \<Rightarrow> string option" where
  "sql_text SNull = None"
| "sql_text (SInt n) = Some (show_int n)"
| "sql_text (SText s) = Some s"

definition sql_like :: "sqlval \<Rightarrow> sqlval \<Rightarrow> bool" where
  "sql_like x pat =
     (case (sql_text pat, sql_text x) of (Some p, Some t) \<Rightarrow> like p t | _ \<Rightarrow> False)"

text \<open>
  The statement of the search, with its six placeholders: three in \<open>WHERE\<close>, two in
  the \<open>CASE\<close> of \<open>ORDER BY\<close>, one in \<open>LIMIT\<close>. It names the columns
  \<open>nomeDemanda\<close>, \<open>descricao\<close>, \<open>tag\<close> and \<open>dataLimite\<close>, and does not compile
  against a table that lacks one of them.
\<close>

definition sql_search :: "tabela \<Rightarrow> sqlval list \<Rightarrow> row list \<Rightarrow> sql_error + row list" where
  "sql_search t ps rows =
     (case filter (\<lambda>c. c \<notin> set (colunas t))
             [''nomeDemanda'', ''descricao'', ''tag'', ''dataLimite''] of
        c # _ \<Rightarrow> Inl (NoSuchColumn c)
      | [] \<Rightarrow>
          (if 6 < length ps then Inl BindRange
           else
             (let p = ps @ replicate (6 - length ps) SNull;
                  hits = filter (\<lambda>r. sql_like (col r ''nomeDemanda'') (p ! 0)
                                    \<or> sql_like (col r ''descricao'') (p ! 1)
                                    \<or> sql_like (col r ''tag'') (p ! 2)) rows;
                  rank = (\<lambda>r. if sql_like (col r ''nomeDemanda'') (p ! 3) then 1
                               else if sql_like (col r ''descricao'') (p ! 4) then 2
                               else (3 :: nat))
              in sql_limit (p ! 5) (SInt 0)
                   (fold (insert_by (<) rank) (order_by ''dataLimite'' True hits) []))))"

section \<open>The server's state and its responses\<close>

text \<open>
  The three tables and the backup directory. A file of the directory is kept as what
  \<open>JSON.parse(fs.readFileSync(...))\<close> yields for it: \<open>Some v\<close>, or \<open>None\<close> when the
  read or the parse throws (as both do for a name with no file).
\<close>

record state =
  demandas :: dados
  auditoria :: dados
  backups :: dados
  arquivos :: "(string \<times> jsval option) list"

text \<open>
  The pagination object of the list: \<open>page\<close>, \<open>limit\<close> and \<open>total\<close> are JavaScript
  values; \<open>pages\<close> is the number \<open>Math.ceil\<close> returns, which may be infinite.
\<close>

datatype jsnum = Finite int | NotANumber | Infinite bool

record paginacao =
  pg_page :: jsval
  pg_limit :: jsval
  pg_total :: jsval
  pg_pages :: jsnum

text \<open>
  Every \<open>res.json\<close> of the modelled handlers, and the answer of the global error
  handler (\<open>ErroInterno\<close>) to an exception thrown while a middleware or a handler runs;
  the line that handler appends to \<open>error.log\<close> is not part of the state.
\<close>

datatype resposta =
    DadosInvalidos "erro list"
  | NaoEncontrada
  | ErroBanco sql_error
  | ErroInterno
  | Criada jsobj
  | Atualizada jsobj
  | Excluida
  | Lista "jsobj list" paginacao
  | Resultados "jsobj list"
  | IdObrigatorio
  | BackupNaoEncontrado
  | ErroArquivo
  | Restaurado nat

fun http_status :: "resposta \<Rightarrow> nat" where
  "http_status (DadosInvalidos es) = 400"
| "http_status NaoEncontrada = 404"
| "http_status (ErroBanco err) = 500"
| "http_status ErroInterno = 500"
| "http_status (Criada d) = 200"
| "http_status (Atualizada d) = 200"
| "http_status Excluida = 200"
| "http_status (Lista rows pg) = 200"
| "http_status (Resultados rows) = 200"
| "http_status IdObrigatorio = 400"
| "http_status BackupNaoEncontrado = 404"
| "http_status ErroArquivo = 500"
| "http_status (Restaurado n) = 200"

section \<open>Audit and backups\<close>

text \<open>
  \<open>registrarAuditoria\<close>: one \<open>INSERT\<close> into \<open>auditoria\<close>; an error is written to the
  console and nothing else happens.
\<close>

definition registrarAuditoria ::
  "env \<Rightarrow> string \<Rightarrow> string \<Rightarrow> jsval \<Rightarrow> jsval \<Rightarrow> jsval \<Rightarrow> jsval \<Rightarrow> state \<Rightarrow> state" where
  "registrarAuditoria e acao tab registroId dadosAntigos dadosNovos usuarioId S =
     (case sql_insert tabela_auditoria (agora_db e)
             [''acao'', ''tabela'', ''registroId'', ''dadosAntigos'', ''dadosNovos'',
              ''usuarioId'', ''ip''] 7
             (map bind [JStr acao, JStr tab, registroId,
                JStr (stringify (js_or dadosAntigos (JObj []))),
                JStr (stringify (js_or dadosNovos (JObj []))),
                usuarioId, ip e])
             (auditoria S) of
        Inl err \<Rightarrow> S
      | Inr (t, i) \<Rightarrow> S\<lparr>auditoria := t\<rparr>)"

text \<open>\<open>timestamp.replace(/[:.]/g, '-')\<close>.\<close>

definition sem_pontos :: "string \<Rightarrow> string" where
  "sem_pontos s = map (\<lambda>c. if c = CHR '':'' \<or> c = CHR ''.'' then CHR ''-'' else c) s"

text \<open>
  The envelope \<open>backupData\<close> and the four values \<open>criarBackup\<close> binds to
  \<open>nomeArquivo, dataBackup, tamanho, tipo\<close>: the file name, the serialised envelope,
  the envelope's \<open>length\<close> property, and the kind.
\<close>

definition backupData :: "string \<Rightarrow> string \<Rightarrow> jsobj list \<Rightarrow> jsobj" where
  "backupData timestamp tipo rows =
     [(''versao'', JStr ''1.0.0''), (''data'', JStr timestamp), (''tipo'', JStr tipo),
      (''totalDemandas'', JNum (int (length rows))), (''demandas'', JArr (map JObj rows))]"

definition backup_params :: "string \<Rightarrow> jsobj \<Rightarrow> string \<Rightarrow> jsval list" where
  "backup_params filename bd tipo =
     [JStr filename, JStr (stringify (JObj bd)), field bd ''length'', JStr tipo]"

text \<open>
  The pruning of \<open>criarBackup\<close>. The \<open>SELECT\<close> orders the rows of kind auto by
  \<open>dataCriacao\<close>, newest first, and \<open>LIMIT 10, 999999\<close> skips ten of them and returns
  up to 999999 of the rest; the source names the ids of the rows it returns
  \<open>idsParaManter\<close>. When there is one at least, the \<open>DELETE\<close> removes every row of
  kind auto whose id is not among them.
\<close>

definition podar :: "row list \<Rightarrow> row list" where
  "podar rows =
     (let sel = take 999999 (drop 10
                  (order_by ''dataCriacao'' False
                     (filter (\<lambda>r. col r ''tipo'' = SText ''auto'') rows)));
          idsParaManter = map (\<lambda>r. col r ''id'') sel
      in if 0 < length sel
         then filter (\<lambda>r. \<not> (col r ''tipo'' = SText ''auto''
                               \<and> col r ''id'' \<notin> set idsParaManter)) rows
         else rows)"

text \<open>
  \<open>criarBackup\<close>: read every row, write the file (the write is assumed to succeed;
  reading the file back yields the envelope), register the file in \<open>backups\<close> (an
  error is only logged), and prune when the kind is auto.
\<close>

definition criarBackup :: "env \<Rightarrow> string \<Rightarrow> state \<Rightarrow> state" where
  "criarBackup e tipo S =
     (let timestamp = sem_pontos (agora_iso e);
          filename = ''backup_'' @ tipo @ ''_'' @ timestamp @ ''.json'';
          bd = backupData timestamp tipo (map row_obj (linhas (demandas S)));
          S1 = S\<lparr>arquivos := (filename, Some (JObj bd)) # arquivos S\<rparr>;
          S2 = (case sql_insert tabela_backups (agora_db e)
                       [''nomeArquivo'', ''dataBackup'', ''tamanho'', ''tipo''] 4
                       (map bind (backup_params filename bd tipo)) (backups S1) of
                  Inl err \<Rightarrow> S1
                | Inr (t, i) \<Rightarrow> S1\<lparr>backups := t\<rparr>)
      in if tipo = ''auto''
         then S2\<lparr>backups := (backups S2)\<lparr>linhas := podar (linhas (backups S2))\<rparr>\<rparr>
         else S2)"

section \<open>Creating, updating and deleting a record\<close>

text \<open>The columns and the parameters of the \<open>INSERT\<close> of \<open>POST /api/demandas\<close>.\<close>

definition create_cols :: "string list" where
  "create_cols = [''funcionarioId'', ''nomeFuncionario'', ''emailFuncionario'', ''categoria'',
     ''prioridade'', ''complexidade'', ''descricao'', ''local'', ''dataCriacao'',
     ''dataLimite'', ''status'', ''isRotina'', ''diasSemana'', ''tag'', ''comentarios'',
     ''comentarioGestor'', ''atribuidos'', ''criadoPor'']"

definition json_or_null :: "jsval \<Rightarrow> jsval" where
  "json_or_null v = (if truthy v then JStr (stringify v) else JNull)"

definition create_params :: "env \<Rightarrow> jsobj \<Rightarrow> jsval list" where
  "create_params e d =
     [field d ''funcionarioId'', field d ''nomeFuncionario'', field d ''emailFuncionario'',
      field d ''categoria'', field d ''prioridade'', field d ''complexidade'',
      field d ''descricao'', field d ''local'',
      js_or (field d ''dataCriacao'') (JStr (agora_iso e)),
      field d ''dataLimite'',
      js_or (field d ''status'') (JStr ''pendente''),
      (if truthy (field d ''isRotina'') then JNum 1 else JNum 0),
      json_or_null (field d ''diasSemana''),
      field d ''tag'',
      js_or (field d ''comentarios'') (JStr []),
      js_or (field d ''comentarioGestor'') (JStr []),
      json_or_null (field d ''atribuidos''),
      field d ''funcionarioId'']"

text \<open>\<open>if (!d.tag) d.tag = ...\<close>: the body with its tag, generated when it has none.\<close>

definition com_tag :: "env \<Rightarrow> jsobj \<Rightarrow> jsobj" where
  "com_tag e b = (if \<not> truthy (field b ''tag'') then obj_set b ''tag'' (JStr (tag_gerada e)) else b)"

text \<open>
  \<open>POST /api/demandas\<close>. \<open>placeholders\<close> is the number of \<open>?\<close> in the \<open>VALUES\<close>
  list of the statement; the source writes 17 of them (\<open>post_demanda\<close>).
\<close>

definition post_demanda_com :: "nat \<Rightarrow> env \<Rightarrow> jsobj \<Rightarrow> state \<Rightarrow> resposta \<times> state" where
  "post_demanda_com placeholders e b S =
     (case validarDemanda e b of
        Thrown \<Rightarrow> (ErroInterno, S)
      | Rejected es \<Rightarrow> (DadosInvalidos es, S)
      | Next \<Rightarrow>
          (let d = com_tag e b;
               params = create_params e d
           in (case sql_insert tabela_demandas (agora_db e) create_cols placeholders
                       (map bind params) (demandas S) of
                 Inl err \<Rightarrow> (ErroBanco err, S)
               | Inr (t, lastID) \<Rightarrow>
                   (let S1 = S\<lparr>demandas := t\<rparr>;
                        S2 = registrarAuditoria e ''CREATE'' ''demandas'' (JNum lastID) JNull
                               (JObj d) (field d ''funcionarioId'') S1;
                        S3 = criarBackup e ''auto'' S2
                    in (Criada (obj_set (spread [(''id'', JNum lastID)] d)
                                  ''dataCriacao'' (params ! 8)), S3)))))"

definition post_demanda :: "env \<Rightarrow> jsobj \<Rightarrow> state \<Rightarrow> resposta \<times> state" where
  "post_demanda = post_demanda_com 17"

text \<open>
  \<open>PUT /api/demandas/:id\<close>. \<open>dadosCompletos\<close> is the stored row overlaid with the
  body, without \<open>id\<close>, \<open>dataCriacao\<close> and \<open>criadoPor\<close>, with the modification
  time and the modifier. The \<open>UPDATE\<close> sets nineteen columns.
\<close>

definition dadosCompletos :: "env \<Rightarrow> row \<Rightarrow> jsobj \<Rightarrow> jsobj" where
  "dadosCompletos e demandaExistente d =
     obj_set
       (obj_set
          (obj_delete (obj_delete (obj_delete (spread (row_obj demandaExistente) d) ''id'')
             ''dataCriacao'') ''criadoPor'')
          ''dataAtualizacao'' (JStr (agora_iso e)))
       ''atualizadoPor'' (field d ''funcionarioId'')"

definition update_cols :: "string list" where
  "update_cols = [''funcionarioId'', ''nomeFuncionario'', ''emailFuncionario'', ''categoria'',
     ''prioridade'', ''complexidade'', ''descricao'', ''local'', ''dataLimite'', ''status'',
     ''isRotina'', ''diasSemana'', ''tag'', ''comentarios'', ''comentarioGestor'',
     ''dataConclusao'', ''atribuidos'', ''dataAtualizacao'', ''atualizadoPor'']"

definition update_params :: "jsobj \<Rightarrow> jsval list" where
  "update_params dc =
     [field dc ''funcionarioId'', field dc ''nomeFuncionario'', field dc ''emailFuncionario'',
      field dc ''categoria'', field dc ''prioridade'', field dc ''complexidade'',
      field dc ''descricao'', field dc ''local'', field dc ''dataLimite'', field dc ''status'',
      (if truthy (field dc ''isRotina'') then JNum 1 else JNum 0),
      json_or_null (field dc ''diasSemana''),
      field dc ''tag'',
      js_or (field dc ''comentarios'') (JStr []),
      js_or (field dc ''comentarioGestor'') (JStr []),
      js_or (field dc ''dataConclusao'') JNull,
      json_or_null (field dc ''atribuidos''),
      field dc ''dataAtualizacao'',
      field dc ''atualizadoPor'']"

definition put_demanda :: "env \<Rightarrow> int \<Rightarrow> jsobj \<Rightarrow> state \<Rightarrow> resposta \<times> state" where
  "put_demanda e i d S =
     (case validarDemanda e d of
        Thrown \<Rightarrow> (ErroInterno, S)
      | Rejected es \<Rightarrow> (DadosInvalidos es, S)
      | Next \<Rightarrow>
          (case select_by_id i (linhas (demandas S)) of
             None \<Rightarrow> (NaoEncontrada, S)
           | Some demandaExistente \<Rightarrow>
               (let dc = dadosCompletos e demandaExistente d
                in (case sql_update_by_id tabela_demandas
                           (zip update_cols (map bind (update_params dc))) i
                           (linhas (demandas S)) of
                      Inl err \<Rightarrow> (ErroBanco err, S)
                    | Inr rows \<Rightarrow>
                        (let S1 = S\<lparr>demandas := (demandas S)\<lparr>linhas := rows\<rparr>\<rparr>;
                             S2 = registrarAuditoria e ''UPDATE'' ''demandas'' (JNum i)
                                    (JObj (row_obj demandaExistente)) (JObj dc)
                                    (field d ''funcionarioId'') S1;
                             S3 = (if field d ''status''
                                        \<in> set [JStr ''aprovada'', JStr ''reprovada'']
                                   then criarBackup e ''status_change'' S2 else S2)
                         in (Atualizada (spread [(''id'', JNum i)] dc), S3))))))"

text \<open>\<open>DELETE /api/demandas/:id\<close>; \<open>b\<close> is the request's body.\<close>

definition delete_demanda :: "env \<Rightarrow> int \<Rightarrow> jsobj \<Rightarrow> state \<Rightarrow> resposta \<times> state" where
  "delete_demanda e i b S =
     (case select_by_id i (linhas (demandas S)) of
        None \<Rightarrow> (NaoEncontrada, S)
      | Some demanda \<Rightarrow>
          (let S1 = S\<lparr>demandas := (demandas S)\<lparr>linhas :=
                       sql_delete_by_id i (linhas (demandas S))\<rparr>\<rparr>;
               S2 = registrarAuditoria e ''DELETE'' ''demandas'' (JNum i)
                      (JObj (row_obj demanda)) JNull (js_or (field b ''usuarioId'') JNull) S1;
               S3 = criarBackup e ''delete'' S2
           in (Excluida, S3)))"

section \<open>Listing and searching\<close>

text \<open>
  \<open>parseInt(v)\<close>: the text of \<open>v\<close> without leading white space, an optional sign,
  an optional \<open>0x\<close> for radix 16, then the longest run of digits; \<open>NaN\<close> when there
  is no digit.
\<close>

definition parseInt :: "jsval \<Rightarrow> jsval" where
  "parseInt v =
     (let (neg, s) = signed (dropWhile js_space (js_to_string v));
          hex = (case s of a # b # _ \<Rightarrow> a = CHR ''0'' \<and> (b = CHR ''x'' \<or> b = CHR ''X'') | _ \<Rightarrow> False);
          radix = (if hex then 16 else 10);
          z = takeWhile (is_digit radix) (if hex then drop 2 s else s)
      in if z = [] then JNaN
         else JNum ((if neg then - 1 else 1) * int (digits_value radix z)))"

text \<open>
  \<open>ToNumber\<close>, to an integer or \<open>NaN\<close> (\<open>None\<close>). A text counts when, trimmed, it
  is empty (zero) or a decimal integer literal; other numeric spellings are not
  modelled.
\<close>

definition text_number :: "string \<Rightarrow> int option" where
  "text_number s = (if trim s = [] then Some 0 else int_literal (trim s))"

fun to_number :: "jsval \<Rightarrow> int option" where
  "to_number JUndefined = None"
| "to_number JNull = Some 0"
| "to_number (JBool b) = Some (if b then 1 else 0)"
| "to_number (JNum n) = Some n"
| "to_number JNaN = None"
| "to_number (JStr s) = text_number s"
| "to_number (JArr xs) = text_number (js_to_string (JArr xs))"
| "to_number (JObj ps) = None"

definition num_op :: "(int \<Rightarrow> int \<Rightarrow> int) \<Rightarrow> jsval \<Rightarrow> jsval \<Rightarrow> jsval" where
  "num_op f a b =
     (case (to_number a, to_number b) of (Some x, Some y) \<Rightarrow> JNum (f x y) | _ \<Rightarrow> JNaN)"

text \<open>\<open>Math.ceil(a / b)\<close>.\<close>

definition js_ceil_div :: "jsval \<Rightarrow> jsval \<Rightarrow> jsnum" where
  "js_ceil_div a b =
     (case (to_number a, to_number b) of
        (Some x, Some y) \<Rightarrow>
          if y = 0 then (if x = 0 then NotANumber else Infinite (0 < x))
          else Finite (- ((- x) div y))
      | _ \<Rightarrow> NotANumber)"

text \<open>\<open>a < n\<close> for a value and a number: \<open>false\<close> when \<open>a\<close> is not a number.\<close>

definition js_less :: "jsval \<Rightarrow> int \<Rightarrow> bool" where
  "js_less a n = (case to_number a of None \<Rightarrow> False | Some x \<Rightarrow> x < n)"

text \<open>A destructuring default applies when the property is \<open>undefined\<close>.\<close>

definition or_default :: "jsval \<Rightarrow> jsval \<Rightarrow> jsval" where
  "or_default v d = (if v = JUndefined then d else v)"

text \<open>The filters of the list, in the order the source appends them to the query.\<close>

definition filtro :: "jsobj \<Rightarrow> string \<Rightarrow> (sqlval \<Rightarrow> cond) \<Rightarrow> cond list" where
  "filtro q k mk = (if truthy (field q k) then [mk (bind (field q k))] else [])"

definition filtros :: "jsobj \<Rightarrow> cond list" where
  "filtros q =
     filtro q ''status'' (Igual ''status'')
     @ filtro q ''funcionarioId'' (Igual ''funcionarioId'')
     @ filtro q ''categoria'' (Igual ''categoria'')
     @ filtro q ''prioridade'' (Igual ''prioridade'')
     @ filtro q ''dataInicio'' (MaiorIgual ''dataCriacao'')
     @ filtro q ''dataFim'' (MenorIgual ''dataCriacao'')"

definition allowedOrderFields :: "jsval list" where
  "allowedOrderFields = [JStr ''dataCriacao'', JStr ''dataLimite'', JStr ''status'',
     JStr ''prioridade'', JStr ''categoria'']"

text \<open>
  The row \<open>db.get\<close> returns for \<open>SELECT COUNT(*) FROM demandas WHERE ...\<close>: its one
  column has no alias in the statement, so SQLite names it by its expression.
\<close>

definition count_row :: "nat \<Rightarrow> jsobj" where
  "count_row n = [(''COUNT(*)'', JNum (int n))]"

text \<open>
  \<open>GET /api/demandas\<close>; \<open>q\<close> is \<open>req.query\<close>. \<open>orderDirection.toUpperCase()\<close>
  throws when the parameter is not a string.
\<close>

definition get_demandas :: "jsobj \<Rightarrow> state \<Rightarrow> resposta \<times> state" where
  "get_demandas q S =
     (let page = or_default (field q ''page'') (JNum 1);
          limit = or_default (field q ''limit'') (JNum 50);
          orderBy = or_default (field q ''orderBy'') (JStr ''dataCriacao'');
          orderDirection = or_default (field q ''orderDirection'') (JStr ''DESC'');
          conds = filtros q;
          campo = (if orderBy \<in> set allowedOrderFields then js_to_string orderBy
                   else ''dataCriacao'')
      in (case orderDirection of
            JStr dir \<Rightarrow>
              (let asc = (map upper dir = ''ASC'');
                   offset = num_op (*) (num_op (-) (parseInt page) (JNum 1)) (parseInt limit)
               in (case sql_limit (bind (parseInt limit)) (bind offset)
                          (order_by campo asc (sql_where conds (linhas (demandas S)))) of
                     Inl err \<Rightarrow> (ErroBanco err, S)
                   | Inr rows \<Rightarrow>
                       (let countRow = count_row (length (sql_where conds (linhas (demandas S))))
                        in (Lista (map row_obj rows)
                              \<lparr> pg_page = parseInt page, pg_limit = parseInt limit,
                                pg_total = field countRow ''count'',
                                pg_pages = js_ceil_div (field countRow ''count'') (parseInt limit) \<rparr>,
                            S))))
          | _ \<Rightarrow> (ErroInterno, S)))"

text \<open>
  \<open>GET /api/demandas/search\<close>. The source binds four parameters: the search term
  three times and \<open>limit\<close>.
\<close>

definition search_demandas :: "jsobj \<Rightarrow> state \<Rightarrow> resposta \<times> state" where
  "search_demandas query S =
     (let q = field query ''q'';
          limit = or_default (field query ''limit'') (JNum 20)
      in if \<not> truthy q
            \<or> js_less (case js_get q ''length'' of None \<Rightarrow> JUndefined | Some n \<Rightarrow> n) 2
         then (Resultados [], S)
         else
           (let searchTerm = JStr (''%'' @ js_to_string q @ ''%'')
            in (case sql_search tabela_demandas
                       (map bind [searchTerm, searchTerm, searchTerm, limit])
                       (linhas (demandas S)) of
                  Inl err \<Rightarrow> (ErroBanco err, S)
                | Inr rows \<Rightarrow> (Resultados (map row_obj rows), S))))"

section \<open>Restoring a backup\<close>

text \<open>
  What becomes of a request: a response, no response at all (the handler returns
  without calling \<open>res\<close>), or an exception thrown inside a database callback, outside
  every \<open>try\<close> and outside the router, which ends the process.
\<close>

datatype outcome = Sent resposta | NoReply | Crashed

definition restore_cols :: "string list" where
  "restore_cols = [''funcionarioId'', ''nomeFuncionario'', ''emailFuncionario'', ''categoria'',
     ''prioridade'', ''complexidade'', ''descricao'', ''local'', ''dataCriacao'',
     ''dataLimite'', ''status'', ''isRotina'', ''diasSemana'', ''tag'', ''comentarios'',
     ''comentarioGestor'', ''dataConclusao'', ''atribuidos'', ''criadoPor'']"

text \<open>The parameters built for one element of the backup; \<open>None\<close> when reading its
  properties throws (the element is \<open>null\<close>).\<close>

definition restore_params :: "jsval \<Rightarrow> jsval list option" where
  "restore_params demanda =
     (case js_get demanda ''funcionarioId'' of
        None \<Rightarrow> None
      | Some f \<Rightarrow>
          (let g = (\<lambda>k. case js_get demanda k of None \<Rightarrow> JUndefined | Some v \<Rightarrow> v)
           in Some [f, g ''nomeFuncionario'', g ''emailFuncionario'', g ''categoria'',
                g ''prioridade'', g ''complexidade'', g ''descricao'', g ''local'',
                g ''dataCriacao'', g ''dataLimite'', g ''status'',
                (if truthy (g ''isRotina'') then JNum 1 else JNum 0),
                json_or_null (g ''diasSemana''),
                g ''tag'',
                js_or (g ''comentarios'') (JStr []),
                js_or (g ''comentarioGestor'') (JStr []),
                js_or (g ''dataConclusao'') JNull,
                json_or_null (g ''atribuidos''),
                g ''criadoPor'']))"

text \<open>
  The \<open>forEach\<close> over the backup's records: one \<open>INSERT\<close> each, written with 18
  placeholders for the 19 columns it names; a failed insert is logged and the loop goes
  on. The result is the table and whether an exception escaped.
\<close>

fun restaurar :: "env \<Rightarrow> jsval list \<Rightarrow> dados \<Rightarrow> dados \<times> bool" where
  "restaurar e [] t = (t, False)"
| "restaurar e (x # xs) t =
     (case restore_params x of
        None \<Rightarrow> (t, True)
      | Some ps \<Rightarrow>
          (case sql_insert tabela_demandas (agora_db e) restore_cols 18 (map bind ps) t of
             Inl err \<Rightarrow> restaurar e xs t
           | Inr (t', i) \<Rightarrow> restaurar e xs t'))"

text \<open>\<open>JSON.parse(fs.readFileSync(path.join(backupDir, backup.nomeArquivo)))\<close>.\<close>

definition ler_backup :: "state \<Rightarrow> row \<Rightarrow> jsval option" where
  "ler_backup S backup =
     (case col backup ''nomeArquivo'' of
        SText f \<Rightarrow> (case map_of (arquivos S) f of Some (Some v) \<Rightarrow> Some v | _ \<Rightarrow> None)
      | _ \<Rightarrow> None)"

text \<open>\<open>POST /api/restore\<close>; \<open>b\<close> is the request's body.\<close>

definition restore :: "env \<Rightarrow> jsobj \<Rightarrow> state \<Rightarrow> outcome \<times> state" where
  "restore e b S =
     (let backupId = field b ''backupId''
      in if \<not> truthy backupId then (Sent IdObrigatorio, S)
         else
           (case find (holds (Igual ''id'' (bind backupId))) (linhas (backups S)) of
              None \<Rightarrow> (Sent BackupNaoEncontrado, S)
            | Some backup \<Rightarrow>
                (case ler_backup S backup of
                   None \<Rightarrow> (Sent ErroArquivo, S)
                 | Some bd \<Rightarrow>
                     (case js_get bd ''demandas'' of
                        None \<Rightarrow> (Sent ErroArquivo, S)
                      | Some ds \<Rightarrow>
                          (case ds of
                             JArr xs \<Rightarrow>
                               (let (t, thrown) = restaurar e xs ((demandas S)\<lparr>linhas := []\<rparr>);
                                    S' = S\<lparr>demandas := t\<rparr>
                                in if thrown then (Crashed, S')
                                   else (Sent (Restaurado (length xs)), S'))
                           | _ \<Rightarrow> (NoReply, S))))))"

section \<open>The violations as the specification lists them\<close>

text \<open>
  The specification's list: name shorter than 3 characters, missing category, priority
  outside the enumeration, complexity outside the enumeration, description shorter than
  10 characters, missing location, due date missing or strictly before today. Here a
  field is missing when it is absent, \<open>null\<close> or the empty text; a text is short by
  its length (a missing text is short); a due date given as a text is before today
  when its date is. \<open>violations\<close> follows these words, not \<open>validarDemanda\<close>.
\<close>

definition missing :: "jsval \<Rightarrow> bool" where
  "missing v = (v = JUndefined \<or> v = JNull \<or> v = JStr [])"

definition shorter :: "jsval \<Rightarrow> nat \<Rightarrow> bool" where
  "shorter v n = (missing v \<or> (case v of JStr s \<Rightarrow> length s < n | _ \<Rightarrow> False))"

definition due_before :: "env \<Rightarrow> jsval \<Rightarrow> bool" where
  "due_before e v = (case v of JStr s \<Rightarrow> before_today e v | _ \<Rightarrow> False)"

definition violations :: "env \<Rightarrow> jsobj \<Rightarrow> erro list" where
  "violations e b =
     (if shorter (field b ''nomeDemanda'') 3 then [ErroNome] else [])
     @ (if missing (field b ''categoria'') then [ErroCategoria] else [])
     @ (if field b ''prioridade'' \<in> set prioridades then [] else [ErroPrioridade])
     @ (if field b ''complexidade'' \<in> set complexidades then [] else [ErroComplexidade])
     @ (if shorter (field b ''descricao'') 10 then [ErroDescricao] else [])
     @ (if missing (field b ''local'') then [ErroLocal] else [])
     @ (if missing (field b ''dataLimite'') then [ErroDataObrigatoria]
        else if due_before e (field b ''dataLimite'') then [ErroDataAnterior] else [])"

text \<open>A value on which \<open>!v || v.trim()\<close> does not throw: falsy, or a string.\<close>

definition text_or_falsy :: "jsval \<Rightarrow> bool" where
  "text_or_falsy v = (if truthy v then (case v of JStr s \<Rightarrow> True | _ \<Rightarrow> False) else True)"

text \<open>A body on which none of the validator's three throwing steps throws.\<close>

definition completes :: "jsobj \<Rightarrow> bool" where
  "completes b = (text_or_falsy (field b ''nomeDemanda'')
     \<and> text_or_falsy (field b ''descricao'')
     \<and> \<not> primitive_throws (field b ''dataLimite''))"

section \<open>Example requests and states\<close>

text \<open>
  A server whose day began at 2024-05-05T00:00:00Z, with the time values of the two
  dates the examples use; every other value is an invalid date there.
\<close>

definition e0 :: env where
  "e0 = \<lparr> hoje = 1714867200000,
           date_of = (\<lambda>v. if v = JStr ''2999-01-01'' then Some 32472144000000
                           else if v = JStr ''2020-01-01'' then Some 1577836800000
                           else None),
           agora_iso = ''2024-05-05T12:00:00.000Z'',
           agora_db = ''2024-05-05 12:00:00'',
           tag_gerada = ''DEM-1714910400000-k3j9x2m1q'',
           ip = JStr ''127.0.0.1'' \<rparr>"

definition Manutencao :: string where
  "Manutencao = [CHR ''M'', CHR ''a'', CHR ''n'', CHR ''u'', CHR ''t'', CHR ''e'', CHR ''n'',
     CHR 0xE7, CHR 0xE3, CHR ''o'']"

text \<open>The body of the specification's example of a create request.\<close>

definition corpo_exemplo :: jsobj where
  "corpo_exemplo = [(''nomeDemanda'', JStr ''Fix leak''), (''categoria'', JStr Manutencao),
     (''prioridade'', JStr ''Importante''), (''complexidade'', JStr Facil),
     (''descricao'', JStr ''Pipe is leaking badly''), (''local'', JStr ''Bloco A''),
     (''dataLimite'', JStr ''2999-01-01'')]"

text \<open>An update that also supplies an id, a creation time and a creator.\<close>

definition corpo_put :: jsobj where
  "corpo_put = corpo_exemplo @ [(''funcionarioId'', JNum 9), (''id'', JNum 99),
     (''dataCriacao'', JStr ''1999-01-01''), (''criadoPor'', JNum 55)]"

definition vazia :: dados where
  "vazia = \<lparr> linhas = [], ultimo_id = 0 \<rparr>"

definition S_vazio :: state where
  "S_vazio = \<lparr> demandas = vazia, auditoria = vazia, backups = vazia, arquivos = [] \<rparr>"

text \<open>A stored record with the given id, created at the given time.\<close>

definition linha :: "int \<Rightarrow> string \<Rightarrow> row" where
  "linha i criada =
     [(''id'', SInt i), (''funcionarioId'', SInt 7), (''nomeFuncionario'', SText ''Ana''),
      (''emailFuncionario'', SText ''ana@example.com''), (''categoria'', SText ''TI''),
      (''prioridade'', SText ''Importante''), (''complexidade'', SText Facil),
      (''descricao'', SText ''Trocar o roteador''), (''local'', SText ''Bloco B''),
      (''dataCriacao'', SText criada), (''dataLimite'', SText ''2999-01-01''),
      (''status'', SText ''pendente''), (''isRotina'', SInt 0), (''diasSemana'', SNull),
      (''tag'', SText (''DEM-'' @ show_int i)), (''comentarios'', SText []),
      (''comentarioGestor'', SText []), (''dataConclusao'', SNull), (''atribuidos'', SNull),
      (''dataAtualizacao'', SText criada), (''criadoPor'', SInt 7),
      (''atualizadoPor'', SNull)]"

definition S_um :: state where
  "S_um = \<lparr> demandas = \<lparr> linhas = [linha 1 ''2024-05-01 09:00:00''], ultimo_id = 1 \<rparr>,
            auditoria = vazia, backups = vazia, arquivos = [] \<rparr>"

text \<open>Twenty-five records, the record \<open>i\<close> created on day \<open>i\<close> of January 2024.\<close>

definition dia :: "int \<Rightarrow> string" where
  "dia i = ''2024-01-'' @ (if i < 10 then ''0'' else []) @ show_int i @ '' 09:00:00''"

definition S_25 :: state where
  "S_25 = \<lparr> demandas = \<lparr> linhas = map (\<lambda>i. linha i (dia i)) [1..25], ultimo_id = 25 \<rparr>,
            auditoria = vazia, backups = vazia, arquivos = [] \<rparr>"

text \<open>An index row of a backup, and an index of eleven automatic backups, the backup
  \<open>i\<close> registered on day \<open>i\<close>.\<close>

definition backup_row :: "int \<Rightarrow> string \<Rightarrow> string \<Rightarrow> row" where
  "backup_row i tipo criada =
     [(''id'', SInt i), (''nomeArquivo'', SText (''backup_'' @ tipo @ ''_'' @ show_int i @ ''.json'')),
      (''dataBackup'', SText criada), (''tamanho'', SInt 2048), (''tipo'', SText tipo),
      (''dataCriacao'', SText criada)]"

definition onze_autos :: "row list" where
  "onze_autos = map (\<lambda>i. backup_row i ''auto'' (dia i)) [1..11]"

definition S_onze :: state where
  "S_onze = \<lparr> demandas = vazia, auditoria = vazia,
              backups = \<lparr> linhas = onze_autos, ultimo_id = 11 \<rparr>, arquivos = [] \<rparr>"

text \<open>A registered backup whose file parses to an object without \<open>demandas\<close>, one
  whose file does not parse, and one whose record list holds \<open>null\<close>.\<close>

definition S_backups :: state where
  "S_backups = \<lparr> demandas = \<lparr> linhas = [linha 1 ''2024-05-01 09:00:00''], ultimo_id = 1 \<rparr>,
       auditoria = vazia,
       backups = \<lparr> linhas = [backup_row 1 ''manual'' (dia 1), backup_row 2 ''manual'' (dia 2),
                              backup_row 3 ''manual'' (dia 3)], ultimo_id = 3 \<rparr>,
       arquivos = [(''backup_manual_1.json'', Some (JObj [(''versao'', JStr ''1.0.0'')])),
                   (''backup_manual_2.json'', None),
                   (''backup_manual_3.json'', Some (JObj [(''demandas'', JArr [JNull])]))] \<rparr>"

text \<open>A body whose name is a number and which has no category.\<close>

definition corpo_numerico :: jsobj where
  "corpo_numerico = [(''nomeDemanda'', JNum 123),
     (''prioridade'', JStr ''Importante''), (''complexidade'', JStr Facil),
     (''descricao'', JStr ''Pipe is leaking badly''), (''local'', JStr ''Bloco A''),
     (''dataLimite'', JStr ''2999-01-01'')]"

text \<open>A body with no category whose due date is the JSON object
  \<open>{"toString": null}\<close>.\<close>

definition corpo_data_objeto :: jsobj where
  "corpo_data_objeto = [(''nomeDemanda'', JStr ''Fix leak''),
     (''prioridade'', JStr ''Importante''), (''complexidade'', JStr Facil),
     (''descricao'', JStr ''Pipe is leaking badly''), (''local'', JStr ''Bloco A''),
     (''dataLimite'', JObj [(''toString'', JNull)])]"

text \<open>The ids of the eleventh to the twentieth of the 25 records, newest first.\<close>

definition ids_pagina :: "int list" where
  "ids_pagina = [15, 14, 13, 12, 11, 10, 9, 8, 7, 6]"

section \<open>What the audit and the backup leave alone\<close>

lemma registrarAuditoria_frame:
  "demandas (registrarAuditoria e a t i x y u S) = demandas S"
  "backups (registrarAuditoria e a t i x y u S) = backups S"
  "arquivos (registrarAuditoria e a t i x y u S) = arquivos S"
  by (simp_all add: registrarAuditoria_def split: sum.splits prod.splits)

lemma criarBackup_frame:
  "demandas (criarBackup e tipo S) = demandas S"
  "auditoria (criarBackup e tipo S) = auditoria S"
  by (simp_all add: criarBackup_def Let_def split: sum.splits prod.splits)

lemma col_assign_other: "map_of sets c = None \<Longrightarrow> col (assign sets r) c = col r c"
  by (induction r) (auto simp: col_def assign_def)

lemma find_map_same:
  "(\<And>x. P (f x) = P x) \<Longrightarrow> find P (map f xs) = map_option f (find P xs)"
  by (induction xs) auto

lemma map_of_update_cols:
  "c \<notin> set update_cols \<Longrightarrow> map_of (zip update_cols vs) c = None"
  by (metis not_Some_eq map_of_SomeD set_zip_leftD)

section \<open>Deleting a record that is not there\<close>

lemma validar_vazio:
  "validarDemanda e0 [] = Rejected [ErroNome, ErroCategoria, ErroPrioridade,
     ErroComplexidade, ErroDescricao, ErroLocal, ErroDataObrigatoria]"
  by (simp add: validarDemanda_def erros_de_def data_erros_def too_short_def field_def)

lemma S_um_sem_2: "SInt 2 \<notin> set (map (\<lambda>r. col r ''id'') (linhas (demandas S_um)))"
  by (simp add: S_um_def linha_def col_def)

text \<open>
  C6. When no stored record has the id, \<open>DELETE /api/demandas/:id\<close> answers 404 and
  the whole state is as before: the records, the audit table (no entry is written), the
  backup index and the backup files.
\<close>

theorem delete_absent:
  assumes "SInt i \<notin> set (map (\<lambda>r. col r ''id'') (linhas (demandas S)))"
  shows "delete_demanda e i b S = (NaoEncontrada, S) \<and> http_status NaoEncontrada = 404"
proof -
  have "select_by_id i (linhas (demandas S)) = None"
    using assms unfolding select_by_id_def find_None_iff by force
  then show ?thesis by (simp add: delete_demanda_def)
qed

theorem delete_absent_witness:
  "SInt 2 \<notin> set (map (\<lambda>r. col r ''id'') (linhas (demandas S_um)))
   \<and> delete_demanda e0 2 [] S_um = (NaoEncontrada, S_um)
   \<and> auditoria (snd (delete_demanda e0 2 [] S_um)) = auditoria S_um"
proof -
  note h = S_um_sem_2
  from delete_absent [OF h, of e0 "[]"] h show ?thesis by simp
qed

section \<open>Updating a record\<close>

lemma put_ok_rows:
  assumes "http_status (fst (put_demanda e i d S)) = 200"
  shows "\<exists>vs. linhas (demandas (snd (put_demanda e i d S)))
           = map (\<lambda>x. if col x ''id'' = SInt i then assign (zip update_cols vs) x else x)
               (linhas (demandas S))"
  using assms
  by (auto simp: put_demanda_def sql_update_by_id_def Let_def registrarAuditoria_frame
        criarBackup_frame split: verdict.splits option.splits sum.splits)

lemma put_um_ok: "http_status (fst (put_demanda e0 1 corpo_put S_um)) = 200"
  by code_simp

lemma S_um_tem_1:
  "select_by_id 1 (linhas (demandas S_um)) = Some (linha 1 ''2024-05-01 09:00:00'')"
  by (simp add: select_by_id_def S_um_def linha_def col_def)

text \<open>
  C2. When a record with the id is stored and \<open>PUT /api/demandas/:id\<close> answers 200,
  the record stored under that id afterwards has the \<open>id\<close>, the \<open>dataCriacao\<close> and
  the \<open>criadoPor\<close> it had before, whatever the body holds for them.
\<close>

theorem update_preserves_identity:
  assumes "select_by_id i (linhas (demandas S)) = Some r"
    and "http_status (fst (put_demanda e i d S)) = 200"
  shows "\<exists>r'. select_by_id i (linhas (demandas (snd (put_demanda e i d S)))) = Some r'
           \<and> col r' ''id'' = col r ''id''
           \<and> col r' ''dataCriacao'' = col r ''dataCriacao''
           \<and> col r' ''criadoPor'' = col r ''criadoPor''"
proof -
  from put_ok_rows [OF assms(2)] obtain vs where
    rows: "linhas (demandas (snd (put_demanda e i d S)))
           = map (\<lambda>x. if col x ''id'' = SInt i then assign (zip update_cols vs) x else x)
               (linhas (demandas S))" by blast
  let ?f = "\<lambda>x. if col x ''id'' = SInt i then assign (zip update_cols vs) x else x"
  have keep: "col (assign (zip update_cols vs) x) c = col x c"
    if "c \<notin> set update_cols" for x c
    using that by (simp add: col_assign_other map_of_update_cols)
  have nin: "''id'' \<notin> set update_cols" "''dataCriacao'' \<notin> set update_cols"
    "''criadoPor'' \<notin> set update_cols"
    by (simp_all add: update_cols_def)
  have id_kept: "(col (?f x) ''id'' = SInt i) = (col x ''id'' = SInt i)" for x
    by (simp add: keep [OF nin(1)])
  have "select_by_id i (map ?f (linhas (demandas S))) = Some (?f r)"
    using assms(1) id_kept unfolding select_by_id_def
    by (subst find_map_same) auto
  then show ?thesis
    unfolding rows by (simp add: keep [OF nin(1)] keep [OF nin(2)] keep [OF nin(3)])
qed

theorem update_preserves_identity_witness:
  "select_by_id 1 (linhas (demandas S_um)) = Some (linha 1 ''2024-05-01 09:00:00'')
   \<and> http_status (fst (put_demanda e0 1 corpo_put S_um)) = 200
   \<and> field corpo_put ''id'' = JNum 99
   \<and> field corpo_put ''dataCriacao'' = JStr ''1999-01-01''
   \<and> field corpo_put ''criadoPor'' = JNum 55
   \<and> (\<exists>r'. select_by_id 1 (linhas (demandas (snd (put_demanda e0 1 corpo_put S_um)))) = Some r'
           \<and> col r' ''id'' = SInt 1
           \<and> col r' ''dataCriacao'' = SText ''2024-05-01 09:00:00''
           \<and> col r' ''criadoPor'' = SInt 7)"
proof -
  have body: "field corpo_put ''id'' = JNum 99 \<and> field corpo_put ''dataCriacao'' = JStr ''1999-01-01''
      \<and> field corpo_put ''criadoPor'' = JNum 55"
    by (simp add: corpo_put_def corpo_exemplo_def field_def)
  have cols: "col (linha 1 ''2024-05-01 09:00:00'') ''id'' = SInt 1"
    "col (linha 1 ''2024-05-01 09:00:00'') ''dataCriacao'' = SText ''2024-05-01 09:00:00''"
    "col (linha 1 ''2024-05-01 09:00:00'') ''criadoPor'' = SInt 7"
    by (simp_all add: linha_def col_def)
  from update_preserves_identity [OF S_um_tem_1 put_um_ok]
  show ?thesis using S_um_tem_1 put_um_ok body by (simp add: cols)
qed

section \<open>Validation before create and update\<close>

text \<open>
  The middleware runs before either handler. What it does not let pass changes
  nothing: a body it rejects is answered 400 with its list of errors, a body on which it
  throws is answered 500 by the error handler; the update handler's lookup, and its
  404, are not reached.
\<close>

lemma post_rejected:
  "validarDemanda e b = Rejected es \<Longrightarrow> post_demanda e b S = (DadosInvalidos es, S)"
  by (simp add: post_demanda_def post_demanda_com_def)

lemma post_thrown:
  "validarDemanda e b = Thrown \<Longrightarrow> post_demanda e b S = (ErroInterno, S)"
  by (simp add: post_demanda_def post_demanda_com_def)

lemma put_validates_first:
  assumes "validarDemanda e d = Rejected es"
  shows "put_demanda e i d S = (DadosInvalidos es, S)
         \<and> http_status (fst (put_demanda e i d S)) = 400"
  using assms by (simp add: put_demanda_def)

lemma put_thrown:
  "validarDemanda e d = Thrown \<Longrightarrow> put_demanda e i d S = (ErroInterno, S)"
  by (simp add: put_demanda_def)

lemma put_never_404:
  assumes "validarDemanda e d \<noteq> Next"
  shows "http_status (fst (put_demanda e i d S)) \<noteq> 404 \<and> snd (put_demanda e i d S) = S"
  using assms by (cases "validarDemanda e d") (simp_all add: put_demanda_def)

lemma post_blocked:
  assumes "validarDemanda e b \<noteq> Next"
  shows "snd (post_demanda e b S) = S"
  using assms by (cases "validarDemanda e b") (simp_all add: post_rejected post_thrown)

lemma put_vazio:
  "put_demanda e0 2 [] S_um
     = (DadosInvalidos [ErroNome, ErroCategoria, ErroPrioridade, ErroComplexidade,
          ErroDescricao, ErroLocal, ErroDataObrigatoria], S_um)"
  using put_validates_first [OF validar_vazio, of 2 S_um] by simp

subsection \<open>When the validator runs to its end\<close>

lemma length_trim: "length (trim s) \<le> length s"
proof -
  have "length (dropWhile js_space (rev (dropWhile js_space s)))
        \<le> length (rev (dropWhile js_space s))"
    by (rule length_dropWhile_le)
  also have "\<dots> \<le> length s" by (simp add: length_dropWhile_le)
  finally show ?thesis by (simp add: trim_def)
qed

lemma missing_falsy: "missing v \<Longrightarrow> \<not> truthy v"
  by (auto simp: missing_def)

lemma too_short_text:
  "text_or_falsy v
   \<Longrightarrow> too_short v n = Some (\<not> truthy v \<or> (\<exists>s. v = JStr s \<and> length (trim s) < n))"
  by (cases v) (auto simp: text_or_falsy_def too_short_def split: if_splits)

lemma too_short_throws: "\<not> text_or_falsy v \<Longrightarrow> too_short v n = None"
  by (cases v) (auto simp: text_or_falsy_def too_short_def split: if_splits)

lemma primitive_throws_truthy: "primitive_throws v \<Longrightarrow> truthy v"
  by (cases v) auto

lemma data_erros_throws: "primitive_throws v \<Longrightarrow> data_erros e v = None"
  by (simp add: data_erros_def primitive_throws_truthy)

lemma data_erros_converts:
  "\<not> primitive_throws v
   \<Longrightarrow> data_erros e v = Some (if \<not> truthy v then [ErroDataObrigatoria]
                             else if before_today e v then [ErroDataAnterior] else [])"
  by (simp add: data_erros_def)

lemma shorter_too_short:
  "shorter v n \<Longrightarrow> \<not> truthy v \<or> (\<exists>s. v = JStr s \<and> length (trim s) < n)"
  using length_trim by (cases v) (auto simp: shorter_def missing_def dest: le_less_trans)

lemma due_before_truthy:
  "\<not> missing v \<Longrightarrow> due_before e v \<Longrightarrow> truthy v \<and> before_today e v"
  by (cases v) (auto simp: due_before_def missing_def)

lemma erros_de_throws: "\<not> completes b \<Longrightarrow> erros_de e b = None"
  using too_short_throws [of "field b ''nomeDemanda''" 3]
    too_short_throws [of "field b ''descricao''" 10]
    data_erros_throws [of "field b ''dataLimite''" e]
  by (auto simp: erros_de_def completes_def split: option.splits)

lemma erros_de_completes:
  assumes "completes b"
  shows "erros_de e b =
     Some ((if \<not> truthy (field b ''nomeDemanda'')
               \<or> (\<exists>s. field b ''nomeDemanda'' = JStr s \<and> length (trim s) < 3)
            then [ErroNome] else [])
       @ (if \<not> truthy (field b ''categoria'') then [ErroCategoria] else [])
       @ (if \<not> truthy (field b ''prioridade'') \<or> field b ''prioridade'' \<notin> set prioridades
          then [ErroPrioridade] else [])
       @ (if \<not> truthy (field b ''complexidade'')
             \<or> field b ''complexidade'' \<notin> set complexidades
          then [ErroComplexidade] else [])
       @ (if \<not> truthy (field b ''descricao'')
             \<or> (\<exists>s. field b ''descricao'' = JStr s \<and> length (trim s) < 10)
          then [ErroDescricao] else [])
       @ (if \<not> truthy (field b ''local'') then [ErroLocal] else [])
       @ (if \<not> truthy (field b ''dataLimite'') then [ErroDataObrigatoria]
          else if before_today e (field b ''dataLimite'') then [ErroDataAnterior]
          else []))"
proof -
  from assms have t: "text_or_falsy (field b ''nomeDemanda'')"
    "text_or_falsy (field b ''descricao'')" "\<not> primitive_throws (field b ''dataLimite'')"
    by (simp_all add: completes_def)
  show ?thesis
    unfolding erros_de_def too_short_text [OF t(1)] too_short_text [OF t(2)]
      data_erros_converts [OF t(3)]
    by simp
qed

lemma validar_throws_iff: "validarDemanda e b = Thrown \<longleftrightarrow> \<not> completes b"
proof (cases "completes b")
  case True
  then show ?thesis by (simp add: validarDemanda_def erros_de_completes)
next
  case False
  then show ?thesis by (simp add: validarDemanda_def erros_de_throws)
qed

text \<open>Every violation the specification lists is among the validator's errors.\<close>

lemma violations_listed:
  assumes "erros_de e b = Some es"
  shows "set (violations e b) \<subseteq> set es"
proof
  fix x assume x: "x \<in> set (violations e b)"
  have c: "completes b" using assms erros_de_throws [of b e] by auto
  note es = assms [unfolded erros_de_completes [OF c], simplified, symmetric]
  show "x \<in> set es"
  proof (cases x)
    case ErroNome
    with x have "shorter (field b ''nomeDemanda'') 3"
      by (auto simp: violations_def split: if_splits)
    from shorter_too_short [OF this] show ?thesis unfolding es ErroNome by simp
  next
    case ErroCategoria
    with x have "missing (field b ''categoria'')"
      by (auto simp: violations_def split: if_splits)
    from missing_falsy [OF this] show ?thesis unfolding es ErroCategoria by simp
  next
    case ErroPrioridade
    with x have "field b ''prioridade'' \<notin> set prioridades"
      by (auto simp: violations_def split: if_splits)
    then show ?thesis unfolding es ErroPrioridade by simp
  next
    case ErroComplexidade
    with x have "field b ''complexidade'' \<notin> set complexidades"
      by (auto simp: violations_def split: if_splits)
    then show ?thesis unfolding es ErroComplexidade by simp
  next
    case ErroDescricao
    with x have "shorter (field b ''descricao'') 10"
      by (auto simp: violations_def split: if_splits)
    from shorter_too_short [OF this] show ?thesis unfolding es ErroDescricao by simp
  next
    case ErroLocal
    with x have "missing (field b ''local'')"
      by (auto simp: violations_def split: if_splits)
    from missing_falsy [OF this] show ?thesis unfolding es ErroLocal by simp
  next
    case ErroDataObrigatoria
    with x have "missing (field b ''dataLimite'')"
      by (auto simp: violations_def split: if_splits)
    from missing_falsy [OF this] show ?thesis unfolding es ErroDataObrigatoria by simp
  next
    case ErroDataAnterior
    with x have "\<not> missing (field b ''dataLimite'') \<and> due_before e (field b ''dataLimite'')"
      by (auto simp: violations_def split: if_splits)
    then have "truthy (field b ''dataLimite'') \<and> before_today e (field b ''dataLimite'')"
      using due_before_truthy by blast
    then show ?thesis unfolding es ErroDataAnterior by simp
  qed
qed

text \<open>
  A body with a listed violation never changes the state, through either handler. When
  the validator runs to its end on it, both answer 400 with the validator's errors,
  every listed violation among them; when it throws, both answer 500.
\<close>

lemma listed_violation_blocked:
  assumes "violations e b \<noteq> []"
  shows "snd (post_demanda e b S) = S \<and> snd (put_demanda e i b S) = S
     \<and> (if completes b
        then \<exists>es. es \<noteq> [] \<and> set (violations e b) \<subseteq> set es
               \<and> fst (post_demanda e b S) = DadosInvalidos es
               \<and> fst (put_demanda e i b S) = DadosInvalidos es
        else fst (post_demanda e b S) = ErroInterno \<and> fst (put_demanda e i b S) = ErroInterno)"
proof (cases "completes b")
  case True
  then obtain es where es: "erros_de e b = Some es" by (simp add: erros_de_completes)
  from violations_listed [OF es] assms have ne: "es \<noteq> []" by auto
  then have "validarDemanda e b = Rejected es" by (simp add: validarDemanda_def es)
  then have "post_demanda e b S = (DadosInvalidos es, S)"
    "put_demanda e i b S = (DadosInvalidos es, S)"
    by (simp_all add: post_rejected put_validates_first)
  with True ne violations_listed [OF es] show ?thesis by auto
next
  case False
  then have "validarDemanda e b = Thrown" by (simp add: validar_throws_iff)
  then have "post_demanda e b S = (ErroInterno, S)" "put_demanda e i b S = (ErroInterno, S)"
    by (simp_all add: post_thrown put_thrown)
  with False show ?thesis by auto
qed

subsection \<open>When the validator throws\<close>

lemma numerico_throws: "validarDemanda e corpo_numerico = Thrown"
  by (simp add: validar_throws_iff completes_def text_or_falsy_def field_def
      corpo_numerico_def)

lemma data_objeto_throws: "validarDemanda e corpo_data_objeto = Thrown"
  by (simp add: validar_throws_iff completes_def field_def corpo_data_objeto_def)

lemma sem_categoria:
  "violations e0 corpo_numerico = [ErroCategoria]"
  "violations e0 corpo_data_objeto = [ErroCategoria]"
  by code_simp+

text \<open>
  C7. A body with a listed violation is not always answered 400. Two create requests
  without a category: in one the name is the number 123, in the other the due date is
  the object \<open>{"toString": null}\<close>. The validator throws on both, at
  \<open>nomeDemanda.trim()\<close> and at \<open>new Date(dataLimite)\<close>, and the answer is the error
  handler's 500; the state is unchanged.
\<close>

theorem validation_throws:
  "field corpo_numerico ''categoria'' = JUndefined
   \<and> field corpo_numerico ''nomeDemanda'' = JNum 123
   \<and> post_demanda e0 corpo_numerico S_vazio = (ErroInterno, S_vazio)
   \<and> field corpo_data_objeto ''categoria'' = JUndefined
   \<and> field corpo_data_objeto ''dataLimite'' = JObj [(''toString'', JNull)]
   \<and> post_demanda e0 corpo_data_objeto S_vazio = (ErroInterno, S_vazio)
   \<and> http_status ErroInterno = 500"
proof -
  have "field corpo_numerico ''categoria'' = JUndefined"
    "field corpo_numerico ''nomeDemanda'' = JNum 123"
    "field corpo_data_objeto ''categoria'' = JUndefined"
    "field corpo_data_objeto ''dataLimite'' = JObj [(''toString'', JNull)]"
    by (simp_all add: field_def corpo_numerico_def corpo_data_objeto_def)
  moreover have "post_demanda e0 corpo_numerico S_vazio = (ErroInterno, S_vazio)"
    by (rule post_thrown [OF numerico_throws])
  moreover have "post_demanda e0 corpo_data_objeto S_vazio = (ErroInterno, S_vazio)"
    by (rule post_thrown [OF data_objeto_throws])
  ultimately show ?thesis by simp
qed

text \<open>
  C10. An update whose body fails validation is not always answered 400. No record has
  the id 2; the body has no category and the number 123 as its name. The validator
  throws before the lookup runs and the answer is the error handler's 500, with the
  state unchanged: not the 400 of a validation error, and not the 404 of the lookup.
\<close>

theorem put_throws_before_lookup:
  "SInt 2 \<notin> set (map (\<lambda>r. col r ''id'') (linhas (demandas S_um)))
   \<and> field corpo_numerico ''categoria'' = JUndefined
   \<and> validarDemanda e0 corpo_numerico = Thrown
   \<and> put_demanda e0 2 corpo_numerico S_um = (ErroInterno, S_um)
   \<and> http_status (fst (put_demanda e0 2 corpo_numerico S_um)) = 500"
proof -
  have "field corpo_numerico ''categoria'' = JUndefined"
    by (simp add: field_def corpo_numerico_def)
  moreover have "put_demanda e0 2 corpo_numerico S_um = (ErroInterno, S_um)"
    by (rule put_thrown [OF numerico_throws])
  ultimately show ?thesis using S_um_sem_2 numerico_throws [of e0] by simp
qed

section \<open>The specification's example of a create request\<close>

lemma exemplo_valido:
  "\<not> before_today e (JStr ''2999-01-01'') \<Longrightarrow> validarDemanda e corpo_exemplo = Next"
  by (simp add: validarDemanda_def erros_de_def data_erros_def too_short_def field_def
      corpo_exemplo_def trim_def js_space_def prioridades_def complexidades_def Manutencao_def Facil_def)

lemma exemplo_params:
  "field (com_tag e corpo_exemplo) ''tag'' = JStr (tag_gerada e)
   \<and> create_params e (com_tag e corpo_exemplo) ! 10 = JStr ''pendente''
   \<and> map bind (take 3 (create_params e (com_tag e corpo_exemplo))) = [SNull, SNull, SNull]"
  by (simp add: com_tag_def obj_set_def spread_def field_def corpo_exemplo_def create_params_def js_or_def)

lemma insert_funcionario_nulo:
  assumes "hd ps = SNull" "length ps = 18"
  shows "sql_insert tabela_demandas agora create_cols 18 ps t = Inl (NotNull ''funcionarioId'')"
proof -
  obtain p rest where ps: "ps = p # rest" using assms(2) by (cases ps) auto
  with assms have p: "p = SNull" and n: "length rest = 17" by simp_all
  show ?thesis
    unfolding ps p using n
    by (simp add: sql_insert_def create_cols_def tabela_demandas_def Let_def restricoes_def
      nulas_def col_def)
qed

lemma insert_placeholders:
  "n \<noteq> 18 \<Longrightarrow> sql_insert tabela_demandas agora create_cols n ps t = Inl (ValuesMismatch n 18)"
  by (simp add: sql_insert_def create_cols_def)

lemma exemplo_insert:
  "\<exists>err. sql_insert tabela_demandas agora create_cols n
      (map bind (create_params e (com_tag e corpo_exemplo))) t = Inl err"
proof (cases "n = 18")
  case False
  then show ?thesis by (simp add: insert_placeholders)
next
  case True
  have "hd (map bind (create_params e (com_tag e corpo_exemplo))) = SNull"
    "length (map bind (create_params e (com_tag e corpo_exemplo))) = 18"
    using exemplo_params [of e] by (simp_all add: create_params_def)
  from insert_funcionario_nulo [OF this] True show ?thesis by blast
qed

text \<open>
  C8, as amended. On a day that is not after 2999-01-01 the example body passes the
  validation, is given the generated tag, and has \<open>pendente\<close> as the status
  parameter of the insert; but it has no \<open>funcionarioId\<close>, \<open>nomeFuncionario\<close> or
  \<open>emailFuncionario\<close>, so these are bound as \<open>NULL\<close>. The table declares them
  \<open>NOT NULL\<close>: whatever the number of placeholders of the statement, the insert is
  refused, the state is unchanged, and the answer is 500.
\<close>

theorem example_create_rejected:
  assumes "\<not> before_today e (JStr ''2999-01-01'')"
  shows "validarDemanda e corpo_exemplo = Next
       \<and> field (com_tag e corpo_exemplo) ''tag'' = JStr (tag_gerada e)
       \<and> create_params e (com_tag e corpo_exemplo) ! 10 = JStr ''pendente''
       \<and> map bind (take 3 (create_params e (com_tag e corpo_exemplo))) = [SNull, SNull, SNull]
       \<and> (\<exists>err. post_demanda_com n e corpo_exemplo S = (ErroBanco err, S))
       \<and> http_status (fst (post_demanda e corpo_exemplo S)) = 500"
proof -
  note v = exemplo_valido [OF assms]
  have a: "\<exists>err. post_demanda_com m e corpo_exemplo S = (ErroBanco err, S)" for m
    using exemplo_insert [of "agora_db e" m e "demandas S"]
    by (auto simp: post_demanda_com_def v Let_def)
  from a [of 17] obtain err where "post_demanda e corpo_exemplo S = (ErroBanco err, S)"
    unfolding post_demanda_def by blast
  then have "http_status (fst (post_demanda e corpo_exemplo S)) = 500" by simp
  with v exemplo_params a show ?thesis by blast
qed

theorem example_create_rejected_witness:
  "\<not> before_today e0 (JStr ''2999-01-01'')
   \<and> validarDemanda e0 corpo_exemplo = Next
   \<and> field (com_tag e0 corpo_exemplo) ''tag'' = JStr ''DEM-1714910400000-k3j9x2m1q''
   \<and> (\<exists>err. post_demanda_com 18 e0 corpo_exemplo S_vazio = (ErroBanco err, S_vazio))
   \<and> http_status (fst (post_demanda e0 corpo_exemplo S_vazio)) = 500"
proof -
  have h: "\<not> before_today e0 (JStr ''2999-01-01'')" by (simp add: before_today_def e0_def)
  from example_create_rejected [OF h, of 18 S_vazio] show ?thesis
    using h by (simp add: e0_def)
qed

text \<open>The claim as stated: the example request is answered 200. It is answered 500.\<close>

theorem example_create_counterexample:
  "validarDemanda e0 corpo_exemplo = Next
   \<and> post_demanda e0 corpo_exemplo S_vazio = (ErroBanco (ValuesMismatch 17 18), S_vazio)
   \<and> http_status (fst (post_demanda e0 corpo_exemplo S_vazio)) = 500"
  by code_simp

section \<open>Registering and pruning backups\<close>

lemma onze_sel:
  "drop 10 (order_by ''dataCriacao'' False
      (filter (\<lambda>r. col r ''tipo'' = SText ''auto'') onze_autos))
   = [backup_row 1 ''auto'' (dia 1)]"
  by code_simp

lemma onze_resto:
  "filter (\<lambda>r. \<not> (col r ''tipo'' = SText ''auto'' \<and> col r ''id'' \<notin> set [SInt 1])) onze_autos
   = [backup_row 1 ''auto'' (dia 1)]"
  by code_simp

lemma podar_onze: "podar onze_autos = [backup_row 1 ''auto'' (dia 1)]"
proof -
  have "col (backup_row 1 ''auto'' (dia 1)) ''id'' = SInt 1"
    by (simp add: backup_row_def col_def)
  then show ?thesis
    unfolding podar_def Let_def onze_sel using onze_resto by simp
qed

lemma insert_sem_tamanho:
  "sql_insert tabela_backups agora [''nomeArquivo'', ''dataBackup'', ''tamanho'', ''tipo''] 4
     (map bind (backup_params f (backupData ts tipo rows) tipo)) t = Inl (NotNull ''tamanho'')"
  by (simp add: sql_insert_def tabela_backups_def Let_def restricoes_def nulas_def col_def
      backup_params_def backupData_def field_def)

lemma criarBackup_backups:
  "linhas (backups (criarBackup e tipo S))
   = (if tipo = ''auto'' then podar (linhas (backups S)) else linhas (backups S))"
  by (simp add: criarBackup_def Let_def insert_sem_tamanho)

text \<open>
  C1. With eleven automatic backups in the index, registered on eleven successive
  days, the pruning keeps one row, the oldest, and removes the ten most recent: the
  ids the \<open>SELECT\<close> returns are those of the rows past the tenth, and the
  \<open>DELETE\<close> keeps exactly them. So does \<open>criarBackup('auto')\<close> on that index.
\<close>

theorem prune_keeps_oldest:
  "map row_id onze_autos = [1, 2, 3, 4, 5, 6, 7, 8, 9, 10, 11]
   \<and> podar onze_autos = [backup_row 1 ''auto'' (dia 1)]
   \<and> linhas (backups (criarBackup e0 ''auto'' S_onze)) = [backup_row 1 ''auto'' (dia 1)]"
proof -
  have "map row_id onze_autos = [1, 2, 3, 4, 5, 6, 7, 8, 9, 10, 11]" by code_simp
  moreover have "linhas (backups S_onze) = onze_autos" by (simp add: S_onze_def)
  ultimately show ?thesis by (simp add: criarBackup_backups podar_onze)
qed

text \<open>
  C9. For every file name, timestamp, kind and record list, the value \<open>criarBackup\<close>
  binds to \<open>tamanho\<close> is \<open>undefined\<close> (the envelope is an object and has no
  \<open>length\<close>), and the value it binds to \<open>dataBackup\<close> is the serialised
  envelope, a text that starts with a brace, not the timestamp. \<open>tamanho\<close> being
  \<open>NOT NULL\<close>, the insert is refused: a manual backup leaves the index as it was.
\<close>

theorem backup_row_values:
  "backup_params f (backupData ts tipo rows) tipo ! 2 = JUndefined
   \<and> (\<exists>rest. backup_params f (backupData ts tipo rows) tipo ! 1 = JStr (CHR ''{'' # rest))
   \<and> sql_insert tabela_backups agora [''nomeArquivo'', ''dataBackup'', ''tamanho'', ''tipo''] 4
         (map bind (backup_params f (backupData ts tipo rows) tipo)) t = Inl (NotNull ''tamanho'')
   \<and> backups (criarBackup e ''manual'' S) = backups S"
proof -
  have size: "backup_params f (backupData ts tipo rows) tipo ! 2 = JUndefined"
    by (simp add: backup_params_def backupData_def field_def)
  have data: "\<exists>rest. backup_params f (backupData ts tipo rows) tipo ! 1 = JStr (CHR ''{'' # rest)"
    by (simp add: backup_params_def)
  have same: "backups (criarBackup e ''manual'' S) = backups S"
    by (simp add: criarBackup_def Let_def insert_sem_tamanho)
  from size data same insert_sem_tamanho [of agora f ts tipo rows t] show ?thesis
    by blast
qed

section \<open>The pagination of the list\<close>

lemma list_total:
  "fst (get_demandas q S) = Lista rows pg
   \<Longrightarrow> pg_total pg = JUndefined \<and> pg_pages pg = NotANumber"
  by (auto simp: get_demandas_def Let_def count_row_def field_def js_ceil_div_def
      split: jsval.splits sum.splits)

lemma S_25_todas:
  "length (sql_where (filtros [(''page'', JStr ''2''), (''limit'', JStr ''10'')])
             (linhas (demandas S_25))) = 25"
  by code_simp

text \<open>
  C3. Page 2 with limit 10 over 25 records, all of which match: the rows of the answer
  are the eleventh to the twentieth in the order of the list (newest first), but
  \<open>total\<close> is \<open>undefined\<close> and \<open>pages\<close> is \<open>NaN\<close>, not 25 and 3. The count query
  returns its number in a column named \<open>COUNT(*)\<close> and the handler reads
  \<open>countRow.count\<close>; by \<open>list_total\<close> it is so for every list that is answered.
\<close>

theorem list_page_two:
  "fst (get_demandas [(''page'', JStr ''2''), (''limit'', JStr ''10'')] S_25)
   = Lista (map (\<lambda>i. row_obj (linha i (dia i))) ids_pagina)
       \<lparr> pg_page = JNum 2, pg_limit = JNum 10, pg_total = JUndefined,
         pg_pages = NotANumber \<rparr>"
  by code_simp

section \<open>The search\<close>

lemma search_statement:
  "sql_search tabela_demandas ps rows = Inl (NoSuchColumn ''nomeDemanda'')"
  by (simp add: sql_search_def tabela_demandas_def)

text \<open>
  Against any table that has the four columns, the statement still fails with the four
  parameters the handler binds: the placeholder of \<open>LIMIT\<close> is the sixth.
\<close>

lemma search_limit_unbound:
  assumes "set [''nomeDemanda'', ''descricao'', ''tag'', ''dataLimite''] \<subseteq> set (colunas t)"
    and "length ps = 4"
  shows "sql_search t ps rows = Inl DatatypeMismatch"
proof -
  obtain a b c d where ps: "ps = [a, b, c, d]"
    using assms(2) by (auto simp: length_Suc_conv numeral_eq_Suc)
  from assms(1) show ?thesis
    by (simp add: sql_search_def ps Let_def sql_limit_def numeral_eq_Suc)
qed

text \<open>
  C4. For a query string \<open>q\<close>: shorter than 2 characters, the answer is the empty
  list; of 2 characters or more, the answer is never a list of records: the statement
  names the column \<open>nomeDemanda\<close>, which the table \<open>demandas\<close> does not have, and
  the answer is the 500 of the database error.
\<close>

theorem search_outcome:
  assumes "field query ''q'' = JStr s"
  shows "search_demandas query S
         = (if length s < 2 then (Resultados [], S)
            else (ErroBanco (NoSuchColumn ''nomeDemanda''), S))"
  using assms
  by (auto simp: search_demandas_def Let_def js_less_def search_statement)

theorem search_outcome_witness:
  "field [(''q'', JStr ''ab'')] ''q'' = JStr ''ab''
   \<and> search_demandas [(''q'', JStr ''ab'')] S_um
       = (ErroBanco (NoSuchColumn ''nomeDemanda''), S_um)
   \<and> http_status (fst (search_demandas [(''q'', JStr ''ab'')] S_um)) = 500
   \<and> search_demandas [(''q'', JStr ''a'')] S_um = (Resultados [], S_um)"
proof -
  have h: "field [(''q'', JStr t)] ''q'' = JStr t" for t by (simp add: field_def)
  from search_outcome [OF h, of "''ab''" S_um] search_outcome [OF h, of "''a''" S_um]
    h [of "''ab''"]
  show ?thesis by simp
qed

section \<open>Restoring from a backup that is not sound\<close>

text \<open>A file that cannot be read or parsed: the 500 of the \<open>catch\<close>, nothing changed.\<close>

lemma restore_unreadable:
  assumes "truthy (field b ''backupId'')"
    and "find (holds (Igual ''id'' (bind (field b ''backupId'')))) (linhas (backups S)) = Some bk"
    and "ler_backup S bk = None"
  shows "restore e b S = (Sent ErroArquivo, S)"
  using assms by (simp add: restore_def)

text \<open>
  The three backups of \<open>S_backups\<close>: the file that does not parse is answered 500; the
  file whose list holds \<open>null\<close> ends the process after the records were deleted.
\<close>

lemma restore_examples:
  "restore e0 [(''backupId'', JNum 2)] S_backups = (Sent ErroArquivo, S_backups)"
  "fst (restore e0 [(''backupId'', JNum 3)] S_backups) = Crashed"
  "linhas (demandas S_backups) = [linha 1 ''2024-05-01 09:00:00'']"
  "linhas (demandas (snd (restore e0 [(''backupId'', JNum 3)] S_backups))) = []"
  by code_simp+

text \<open>
  C5. A registered backup whose file parses to an object without \<open>demandas\<close>: the
  state is unchanged, and the request gets no response at all, neither the 500 nor any
  other: the \<open>if\<close> that tests the list has no \<open>else\<close>.
\<close>

theorem restore_without_list:
  assumes "truthy (field b ''backupId'')"
    and "find (holds (Igual ''id'' (bind (field b ''backupId'')))) (linhas (backups S)) = Some bk"
    and "ler_backup S bk = Some (JObj ps)"
    and "map_of ps ''demandas'' = None"
  shows "restore e b S = (NoReply, S)"
  using assms by (simp add: restore_def field_def)

theorem restore_without_list_witness:
  "truthy (field [(''backupId'', JNum 1)] ''backupId'')
   \<and> ler_backup S_backups (backup_row 1 ''manual'' (dia 1))
       = Some (JObj [(''versao'', JStr ''1.0.0'')])
   \<and> restore e0 [(''backupId'', JNum 1)] S_backups = (NoReply, S_backups)"
proof -
  have h1: "truthy (field [(''backupId'', JNum 1)] ''backupId'')" by (simp add: field_def)
  have h2: "find (holds (Igual ''id'' (bind (field [(''backupId'', JNum 1)] ''backupId''))))
              (linhas (backups S_backups)) = Some (backup_row 1 ''manual'' (dia 1))"
    by code_simp
  have h3: "ler_backup S_backups (backup_row 1 ''manual'' (dia 1))
            = Some (JObj [(''versao'', JStr ''1.0.0'')])"
    by code_simp
  have h4: "map_of [(''versao'', JStr ''1.0.0'')] ''demandas'' = None" by simp
  from restore_without_list [OF h1 h2 h3 h4, of e0] h1 h3 show ?thesis by simp
qed

end
